theory Spec2Isabelle
  imports Complex_Main
begin

section \<open>Finetuning torchvision models: the adapter and the training loop\<close>

text \<open>
  The notebook defines three functions: \<open>set_parameter_requires_grad\<close>,
  \<open>initialize_model\<close> and \<open>train_model\<close>.  They are embedded here as HOL functions.
  Everything the notebook calls but does not define (the torchvision model constructors,
  the forward pass, the loss function, automatic differentiation, the optimizer, the data
  loaders) is a parameter of the embedding, so every theorem holds for each of its
  behaviours.  Exceptions are values of the type \<open>error\<close>; a function that can raise
  returns \<open>error + 'a\<close> with \<open>Inl\<close> for the exception.  Console output and the wall
  clock are left out.  Python's \<open>None\<close> is the \<open>None\<close> of an option type.
\<close>

datatype error =
    SystemExit
  | AttributeError
  | IndexError
  | ZeroDivisionError
  | ValueError
  | TypeError
  | RuntimeError

subsection \<open>Networks\<close>

text \<open>
  A network is the dictionary of its parameterised sub-modules, keyed by the attribute
  path under which Python reaches them (\<open>fc\<close>, \<open>classifier.6\<close>, \<open>AuxLogits.fc\<close>, as in
  \<open>named_modules()\<close>).  A module records what the code reads and writes: its class, its
  input and output width (\<open>in_channels\<close> and \<open>out_channels\<close> for a convolution) and
  the \<open>requires_grad\<close> flag of each of its parameters.
\<close>

datatype kind =
    Linear
  | Conv2d "nat \<times> nat" "nat \<times> nat"   \<comment> \<open>\<open>kernel_size\<close>, \<open>stride\<close>\<close>
  | Other

record layer =
  kind :: kind
  in_features :: nat
  out_features :: nat
  requires_grad :: "bool list"

record net =
  modules :: "string \<rightharpoonup> layer"
  attr_num_classes :: nat   \<comment> \<open>the attribute \<open>num_classes\<close> of the model object\<close>

text \<open>
  \<open>nn.Linear(i, o)\<close> and \<open>nn.Conv2d(i, o, kernel_size, stride)\<close> create a module with
  a weight and a bias (\<open>bias=True\<close> is the default of both); a new parameter has
  \<open>requires_grad=True\<close>.
\<close>

definition nn_Linear :: "nat \<Rightarrow> nat \<Rightarrow> layer" where
  "nn_Linear i n = \<lparr>kind = Linear, in_features = i, out_features = n,
                    requires_grad = [True, True]\<rparr>"

definition nn_Conv2d :: "nat \<Rightarrow> nat \<Rightarrow> nat \<times> nat \<Rightarrow> nat \<times> nat \<Rightarrow> layer" where
  "nn_Conv2d i n kernel_size stride =
     \<lparr>kind = Conv2d kernel_size stride, in_features = i, out_features = n,
      requires_grad = [True, True]\<rparr>"

text \<open>
  The pretrained model zoo (\<open>torchvision.models\<close>) is not part of the notebook: its six
  constructors, each taking the \<open>pretrained\<close> flag, are a parameter.
\<close>

record zoo =
  resnet18 :: "bool \<Rightarrow> net"
  alexnet :: "bool \<Rightarrow> net"
  vgg11_bn :: "bool \<Rightarrow> net"
  squeezenet1_0 :: "bool \<Rightarrow> net"
  densenet121 :: "bool \<Rightarrow> net"
  inception_v3 :: "bool \<Rightarrow> net"

subsection \<open>\<open>set_parameter_requires_grad\<close>\<close>

text \<open>
  \<^verbatim>\<open>
  def set_parameter_requires_grad(model, feature_extracting):
      if feature_extracting:
          for param in model.parameters():
              param.requires_grad = False
  \<close>
\<close>

definition set_parameter_requires_grad :: "net \<Rightarrow> bool \<Rightarrow> net" where
  "set_parameter_requires_grad model feature_extracting =
     (if feature_extracting
      then model\<lparr>modules := (\<lambda>path.
             map_option (\<lambda>l. l\<lparr>requires_grad := map (\<lambda>_. False) (requires_grad l)\<rparr>)
               (modules model path))\<rparr>
      else model)"

subsection \<open>\<open>initialize_model\<close>\<close>

text \<open>
  \<open>model.<path>.in_features\<close>: the attribute exists on a \<open>Linear\<close> module only; a
  missing module or a module of another class raises \<open>AttributeError\<close>.
\<close>

definition get_in_features :: "net \<Rightarrow> string \<Rightarrow> error + nat" where
  "get_in_features model path =
     (case modules model path of
        None \<Rightarrow> Inl AttributeError
      | Some l \<Rightarrow> if kind l = Linear then Inr (in_features l) else Inl AttributeError)"

text \<open>\<open>model.<path> = layer\<close>: binds the attribute, replacing the module that was there.\<close>

definition setattr :: "net \<Rightarrow> string \<Rightarrow> layer \<Rightarrow> net" where
  "setattr model path l = model\<lparr>modules := (modules model)(path \<mapsto> l)\<rparr>"

text \<open>
  \<open>model.classifier[1] = layer\<close> without a read before it (the squeezenet branch):
  \<open>Sequential.__setitem__\<close> raises \<open>IndexError\<close> when the container has no such entry.
\<close>

definition setitem :: "net \<Rightarrow> string \<Rightarrow> layer \<Rightarrow> error + net" where
  "setitem model path l =
     (case modules model path of
        None \<Rightarrow> Inl IndexError
      | Some _ \<Rightarrow> Inr (setattr model path l))"

text \<open>
  The five branches that read \<open>in_features\<close> and then assign a new \<open>nn.Linear\<close> share
  this shape:
  \<^verbatim>\<open>
  num_ftrs = model_ft.<path>.in_features
  model_ft.<path> = nn.Linear(num_ftrs, num_classes)
  \<close>
\<close>

definition reshape_linear :: "net \<Rightarrow> string \<Rightarrow> nat \<Rightarrow> error + net" where
  "reshape_linear model_ft path num_classes =
     (case get_in_features model_ft path of
        Inl e \<Rightarrow> Inl e
      | Inr num_ftrs \<Rightarrow> Inr (setattr model_ft path (nn_Linear num_ftrs num_classes)))"

text \<open>
  \<open>initialize_model(model_name, num_classes, feature_extract, use_pretrained)\<close>: one
  branch per model name, in the order of the source.  The function starts with
  \<open>model_ft = None\<close> and \<open>input_size = 0\<close>, and returns the pair
  \<open>(model_ft, input_size)\<close>.  The last branch is
  \<^verbatim>\<open>
  else:
      print("Invalid model name, exiting...")
      exit()
  \<close>
  What \<open>exit()\<close> does depends on where the code runs, so it is a parameter
  \<open>py_exit\<close>: the exception it raises, or \<open>None\<close> when it returns.  In a Python
  process \<open>exit\<close> is the \<open>Quitter\<close> of the \<open>site\<close> module and raises \<open>SystemExit\<close>.
  In the IPython kernel of a notebook, which this source is, \<open>exit\<close> is an autocall
  object that asks the kernel to stop once the cell is done and returns; the function
  then goes on to its \<open>return\<close> with the initial values.
\<close>

definition initialize_model ::
  "zoo \<Rightarrow> error option \<Rightarrow> string \<Rightarrow> nat \<Rightarrow> bool \<Rightarrow> bool
     \<Rightarrow> error + (net option \<times> nat)" where
  "initialize_model z py_exit model_name num_classes feature_extract use_pretrained =
     (if model_name = ''resnet'' then
        (let model_ft = resnet18 z use_pretrained;
             model_ft = set_parameter_requires_grad model_ft feature_extract
         in case reshape_linear model_ft ''fc'' num_classes of
              Inl e \<Rightarrow> Inl e
            | Inr model_ft \<Rightarrow> Inr (Some model_ft, 224))
      else if model_name = ''alexnet'' then
        (let model_ft = alexnet z use_pretrained;
             model_ft = set_parameter_requires_grad model_ft feature_extract
         in case reshape_linear model_ft ''classifier.6'' num_classes of
              Inl e \<Rightarrow> Inl e
            | Inr model_ft \<Rightarrow> Inr (Some model_ft, 224))
      else if model_name = ''vgg'' then
        (let model_ft = vgg11_bn z use_pretrained;
             model_ft = set_parameter_requires_grad model_ft feature_extract
         in case reshape_linear model_ft ''classifier.6'' num_classes of
              Inl e \<Rightarrow> Inl e
            | Inr model_ft \<Rightarrow> Inr (Some model_ft, 224))
      else if model_name = ''squeezenet'' then
        (let model_ft = squeezenet1_0 z use_pretrained;
             model_ft = set_parameter_requires_grad model_ft feature_extract
         in case setitem model_ft ''classifier.1'' (nn_Conv2d 512 num_classes (1, 1) (1, 1)) of
              Inl e \<Rightarrow> Inl e
            | Inr model_ft \<Rightarrow> Inr (Some (model_ft\<lparr>attr_num_classes := num_classes\<rparr>), 224))
      else if model_name = ''densenet'' then
        (let model_ft = densenet121 z use_pretrained;
             model_ft = set_parameter_requires_grad model_ft feature_extract
         in case reshape_linear model_ft ''classifier'' num_classes of
              Inl e \<Rightarrow> Inl e
            | Inr model_ft \<Rightarrow> Inr (Some model_ft, 224))
      else if model_name = ''inception'' then
        (let model_ft = inception_v3 z use_pretrained;
             model_ft = set_parameter_requires_grad model_ft feature_extract
         in case reshape_linear model_ft ''AuxLogits.fc'' num_classes of
              Inl e \<Rightarrow> Inl e
            | Inr model_ft \<Rightarrow>
                (case reshape_linear model_ft ''fc'' num_classes of
                   Inl e \<Rightarrow> Inl e
                 | Inr model_ft \<Rightarrow> Inr (Some model_ft, 299)))
      else
        (case py_exit of
           Some e \<Rightarrow> Inl e
         | None \<Rightarrow> Inr (None, 0)))"

subsection \<open>The training loop: state and collaborators\<close>

text \<open>
  The objects \<open>train_model\<close> mutates are the caller's model and optimizer.  Their state
  is a record: the model's \<open>state_dict()\<close> (parameters and buffers), the model's
  \<open>training\<close> flag, and everything else that is mutable (the gradients of the
  parameters and the optimizer's buffers).  The field \<open>calls\<close> is the sequence of the
  calls made on the model, the loss function and the optimizer so far.
  \<open>copy.deepcopy(model.state_dict())\<close> is the value of the field \<open>weights\<close> at that
  moment.
\<close>

datatype phase = Train | Val

datatype head = Primary | Auxiliary

datatype call =
    ModelTrain                \<comment> \<open>\<open>model.train()\<close>\<close>
  | ModelEval                 \<comment> \<open>\<open>model.eval()\<close>\<close>
  | ZeroGrad                  \<comment> \<open>\<open>optimizer.zero_grad()\<close>\<close>
  | Forward                   \<comment> \<open>\<open>model(inputs)\<close>\<close>
  | Criterion head            \<comment> \<open>\<open>criterion(outputs, labels)\<close>, \<open>criterion(aux_outputs, labels)\<close>\<close>
  | TorchMax                  \<comment> \<open>\<open>torch.max(outputs, 1)\<close>\<close>
  | Backward real             \<comment> \<open>\<open>loss.backward()\<close>, with the value of \<open>loss\<close>\<close>
  | OptimizerStep             \<comment> \<open>\<open>optimizer.step()\<close>\<close>
  | LoadStateDict             \<comment> \<open>\<open>model.load_state_dict(best_model_wts)\<close>\<close>

record ('w, 'r) world =
  weights :: 'w
  training :: bool
  optim :: 'r
  calls :: "call list"

text \<open>
  What \<open>model(inputs)\<close> returns: one tensor, or the pair of the primary and the
  auxiliary output that Inception v3 returns in training mode.
\<close>

datatype 'o model_output = Tensor 'o | InceptionOutputs 'o 'o

text \<open>
  The collaborators.  The forward pass reads the mode and the weights, may update
  buffers in the weights and records what differentiation needs; \<open>backward\<close> fills the
  gradients; the optimizer's step updates the weights from them.  Losses and accuracies
  are real numbers: the rounding of floating-point arithmetic is not modelled.  A label
  and a prediction are class indices.
\<close>

record ('w, 'r, 'x, 'o) framework =
  zero_grad :: "'r \<Rightarrow> 'r"
  forward :: "bool \<Rightarrow> 'w \<Rightarrow> 'r \<Rightarrow> 'x list \<Rightarrow> 'o model_output \<times> 'w \<times> 'r"
  criterion :: "'o \<Rightarrow> nat list \<Rightarrow> real"
  torch_max :: "'o \<Rightarrow> nat list"
  backward :: "real \<Rightarrow> 'r \<Rightarrow> 'r"
  optimizer_step :: "'w \<Rightarrow> 'r \<Rightarrow> 'w \<times> 'r"

text \<open>
  A data loader: \<open>len(loader.dataset)\<close>, and the batches its iteration in a given epoch
  yields (a shuffling loader yields other batches in each epoch).  A batch is a list of
  samples, each an input with its label; \<open>inputs.size(0)\<close> is its length.
\<close>

record 'x dataloader =
  dataset_len :: nat
  batches :: "nat \<Rightarrow> ('x \<times> nat) list list"

text \<open>
  \<open>torch.sum(preds == labels.data)\<close>, for two tensors of one dimension.  The comparison
  is elementwise when both have the same length.  A tensor of length one is broadcast
  against the other one, so its only element is compared with every element of the
  other.  Every other pair of lengths raises \<open>RuntimeError\<close>.  The sum is the number of
  positions that agree.
\<close>

definition sum_eq :: "nat list \<Rightarrow> nat list \<Rightarrow> error + nat" where
  "sum_eq preds labels =
     (if length preds = length labels
        then Inr (length (filter (\<lambda>(p, l). p = l) (zip preds labels)))
      else if length preds = 1
        then Inr (length (filter (\<lambda>l. hd preds = l) labels))
      else if length labels = 1
        then Inr (length (filter (\<lambda>p. p = hd labels) preds))
      else Inl RuntimeError)"

subsection \<open>\<open>train_model\<close>: one batch\<close>

text \<open>
  The body of the loop over the batches, up to the statistics:
  \<^verbatim>\<open>
  optimizer.zero_grad()
  with torch.set_grad_enabled(phase == 'train'):
      if is_inception and phase == 'train':
          outputs, aux_outputs = model(inputs)
          loss1 = criterion(outputs, labels)
          loss2 = criterion(aux_outputs, labels)
          loss = loss1 + 0.4*loss2
      else:
          outputs = model(inputs)
          loss = criterion(outputs, labels)
      _, preds = torch.max(outputs, 1)
      if phase == 'train':
          loss.backward()
          optimizer.step()
  \<close>
  It returns the new state, \<open>loss\<close> and \<open>preds\<close>.  The copies of \<open>inputs\<close> and
  \<open>labels\<close> to the device are left out.  \<open>torch.set_grad_enabled\<close> switches the
  recording of gradients on exactly when the model is in training mode, the mode the
  forward pass is given.  When the model returns a single tensor where the code unpacks
  two outputs, the step raises \<open>ValueError\<close> (a tensor of two rows would unpack into
  its rows, which the loss function of the notebook rejects); when it returns the pair
  where the code expects one tensor, \<open>torch.max\<close> raises \<open>TypeError\<close>.
\<close>

definition batch_step ::
  "('w, 'r, 'x, 'o) framework \<Rightarrow> bool \<Rightarrow> phase \<Rightarrow> 'x list \<Rightarrow> nat list \<Rightarrow> ('w, 'r) world
     \<Rightarrow> error + (('w, 'r) world \<times> real \<times> nat list)" where
  "batch_step fw is_inception phase inputs labels st =
     (let r1 = zero_grad fw (optim st);
          (out, w2, r2) = forward fw (training st) (weights st) r1 inputs;
          st2 = st\<lparr>weights := w2, optim := r2, calls := calls st @ [ZeroGrad, Forward]\<rparr>
      in case (if is_inception \<and> phase = Train then
                 (case out of
                    InceptionOutputs outputs aux_outputs \<Rightarrow>
                      (let loss1 = criterion fw outputs labels;
                           loss2 = criterion fw aux_outputs labels;
                           loss = loss1 + 0.4 * loss2
                       in Inr (outputs, loss, [Criterion Primary, Criterion Auxiliary]))
                  | Tensor _ \<Rightarrow> Inl ValueError)
               else
                 (case out of
                    Tensor outputs \<Rightarrow>
                      (let loss = criterion fw outputs labels
                       in Inr (outputs, loss, [Criterion Primary]))
                  | InceptionOutputs _ _ \<Rightarrow> Inl TypeError)) of
           Inl e \<Rightarrow> Inl e
         | Inr (outputs, loss, cs) \<Rightarrow>
             (let preds = torch_max fw outputs;
                  st3 = st2\<lparr>calls := calls st2 @ cs @ [TorchMax]\<rparr>;
                  st4 = (if phase = Train then
                           (let r3 = backward fw loss (optim st3);
                                (w4, r4) = optimizer_step fw (weights st3) r3
                            in st3\<lparr>weights := w4, optim := r4,
                                   calls := calls st3 @ [Backward loss, OptimizerStep]\<rparr>)
                         else st3)
              in Inr (st4, loss, preds)))"

subsection \<open>\<open>train_model\<close>: one phase\<close>

text \<open>
  The loop over the batches of a phase, with the statistics
  \<^verbatim>\<open>
  running_loss += loss.item() * inputs.size(0)
  running_corrects += torch.sum(preds == labels.data)
  \<close>
\<close>

fun run_batches ::
  "('w, 'r, 'x, 'o) framework \<Rightarrow> bool \<Rightarrow> phase \<Rightarrow> ('x \<times> nat) list list
     \<Rightarrow> ('w, 'r) world \<times> real \<times> nat \<Rightarrow> error + (('w, 'r) world \<times> real \<times> nat)" where
  "run_batches fw is_inception phase [] acc = Inr acc"
| "run_batches fw is_inception phase (b # bs) (st, running_loss, running_corrects) =
     (let inputs = map fst b; labels = map snd b
      in case batch_step fw is_inception phase inputs labels st of
           Inl e \<Rightarrow> Inl e
         | Inr (st', loss, preds) \<Rightarrow>
             (case sum_eq preds labels of
                Inl e \<Rightarrow> Inl e
              | Inr corrects \<Rightarrow>
                  run_batches fw is_inception phase bs
                    (st', running_loss + loss * real (length inputs),
                     running_corrects + corrects)))"

text \<open>
  One phase of one epoch: set the mode, run the batches, then
  \<^verbatim>\<open>
  epoch_loss = running_loss / len(dataloaders[phase].dataset)
  epoch_acc = running_corrects.double() / len(dataloaders[phase].dataset)
  \<close>
  \<open>running_loss\<close> is a Python float, so the first division raises \<open>ZeroDivisionError\<close>
  for an empty dataset.  \<open>running_corrects\<close> starts as the Python integer 0 and becomes
  a tensor with the first batch: when the loader yields no batch, \<open>.double()\<close> raises
  \<open>AttributeError\<close>.  The result is the new state with \<open>epoch_loss\<close> and \<open>epoch_acc\<close>.
\<close>

definition run_phase ::
  "('w, 'r, 'x, 'o) framework \<Rightarrow> bool \<Rightarrow> (phase \<Rightarrow> 'x dataloader) \<Rightarrow> nat \<Rightarrow> phase
     \<Rightarrow> ('w, 'r) world \<Rightarrow> error + (('w, 'r) world \<times> real \<times> real)" where
  "run_phase fw is_inception dataloaders epoch phase st =
     (let st1 = (if phase = Train
                 then st\<lparr>training := True, calls := calls st @ [ModelTrain]\<rparr>
                 else st\<lparr>training := False, calls := calls st @ [ModelEval]\<rparr>);
          bs = batches (dataloaders phase) epoch;
          n = dataset_len (dataloaders phase)
      in case run_batches fw is_inception phase bs (st1, 0, 0) of
           Inl e \<Rightarrow> Inl e
         | Inr (st2, running_loss, running_corrects) \<Rightarrow>
             if n = 0 then Inl ZeroDivisionError
             else if bs = [] then Inl AttributeError
             else Inr (st2, running_loss / real n, real running_corrects / real n))"

subsection \<open>\<open>train_model\<close>: epochs\<close>

text \<open>The local variables of \<open>train_model\<close> that live across epochs, with the model.\<close>

record ('w, 'r) loop_state =
  model :: "('w, 'r) world"
  best_model_wts :: 'w
  best_acc :: real
  val_acc_history :: "real list"

text \<open>
  The body of \<open>for phase in ['train', 'val']\<close>: run the phase, then
  \<^verbatim>\<open>
  if phase == 'val' and epoch_acc > best_acc:
      best_acc = epoch_acc
      best_model_wts = copy.deepcopy(model.state_dict())
  if phase == 'val':
      val_acc_history.append(epoch_acc)
  \<close>
\<close>

definition phase_body ::
  "('w, 'r, 'x, 'o) framework \<Rightarrow> bool \<Rightarrow> (phase \<Rightarrow> 'x dataloader) \<Rightarrow> nat \<Rightarrow> phase
     \<Rightarrow> ('w, 'r) loop_state \<Rightarrow> error + ('w, 'r) loop_state" where
  "phase_body fw is_inception dataloaders epoch phase ls =
     (case run_phase fw is_inception dataloaders epoch phase (model ls) of
        Inl e \<Rightarrow> Inl e
      | Inr (st, epoch_loss, epoch_acc) \<Rightarrow>
          (let ls1 = ls\<lparr>model := st\<rparr>;
               ls2 = (if phase = Val \<and> epoch_acc > best_acc ls1
                      then ls1\<lparr>best_acc := epoch_acc, best_model_wts := weights st\<rparr>
                      else ls1);
               ls3 = (if phase = Val
                      then ls2\<lparr>val_acc_history := val_acc_history ls2 @ [epoch_acc]\<rparr>
                      else ls2)
           in Inr ls3))"

fun run_phases ::
  "('w, 'r, 'x, 'o) framework \<Rightarrow> bool \<Rightarrow> (phase \<Rightarrow> 'x dataloader) \<Rightarrow> nat \<Rightarrow> phase list
     \<Rightarrow> ('w, 'r) loop_state \<Rightarrow> error + ('w, 'r) loop_state" where
  "run_phases fw is_inception dataloaders epoch [] ls = Inr ls"
| "run_phases fw is_inception dataloaders epoch (phase # phases) ls =
     (case phase_body fw is_inception dataloaders epoch phase ls of
        Inl e \<Rightarrow> Inl e
      | Inr ls' \<Rightarrow> run_phases fw is_inception dataloaders epoch phases ls')"

text \<open>The loop \<open>for epoch in range(num_epochs)\<close>, over the list of the epochs to run.\<close>

fun run_epochs ::
  "('w, 'r, 'x, 'o) framework \<Rightarrow> bool \<Rightarrow> (phase \<Rightarrow> 'x dataloader) \<Rightarrow> nat list
     \<Rightarrow> ('w, 'r) loop_state \<Rightarrow> error + ('w, 'r) loop_state" where
  "run_epochs fw is_inception dataloaders [] ls = Inr ls"
| "run_epochs fw is_inception dataloaders (epoch # epochs) ls =
     (case run_phases fw is_inception dataloaders epoch [Train, Val] ls of
        Inl e \<Rightarrow> Inl e
      | Inr ls' \<Rightarrow> run_epochs fw is_inception dataloaders epochs ls')"

text \<open>
  \<open>train_model\<close> up to the end of its loop: the initialisation
  \<^verbatim>\<open>
  val_acc_history = []
  best_model_wts = copy.deepcopy(model.state_dict())
  best_acc = 0.0
  \<close>
  and the epochs of \<open>range(num_epochs)\<close>, which is empty for \<open>num_epochs \<le> 0\<close>.
\<close>

definition train_loop ::
  "('w, 'r, 'x, 'o) framework \<Rightarrow> ('w, 'r) world \<Rightarrow> (phase \<Rightarrow> 'x dataloader) \<Rightarrow> int \<Rightarrow> bool
     \<Rightarrow> error + ('w, 'r) loop_state" where
  "train_loop fw mdl dataloaders num_epochs is_inception =
     run_epochs fw is_inception dataloaders [0 ..< nat num_epochs]
       \<lparr>model = mdl, best_model_wts = weights mdl, best_acc = 0, val_acc_history = []\<rparr>"

text \<open>
  \<open>train_model(model, dataloaders, criterion, optimizer, num_epochs, is_inception)\<close>;
  the loss function and the optimizer are in the framework record.  After the loop:
  \<^verbatim>\<open>
  model.load_state_dict(best_model_wts)
  return model, val_acc_history
  \<close>
\<close>

definition train_model ::
  "('w, 'r, 'x, 'o) framework \<Rightarrow> ('w, 'r) world \<Rightarrow> (phase \<Rightarrow> 'x dataloader) \<Rightarrow> int \<Rightarrow> bool
     \<Rightarrow> error + (('w, 'r) world \<times> real list)" where
  "train_model fw mdl dataloaders num_epochs is_inception =
     (case train_loop fw mdl dataloaders num_epochs is_inception of
        Inl e \<Rightarrow> Inl e
      | Inr ls \<Rightarrow>
          Inr ((model ls)\<lparr>weights := best_model_wts ls,
                          calls := calls (model ls) @ [LoadStateDict]\<rparr>,
               val_acc_history ls))"

section \<open>Notions used in the statements\<close>

text \<open>The names that \<open>initialize_model\<close> accepts, as the notebook lists them.\<close>

definition model_names :: "string list" where
  "model_names = [''resnet'', ''alexnet'', ''vgg'', ''squeezenet'', ''densenet'', ''inception'']"

text \<open>The constructor that \<open>initialize_model\<close> calls for a name.\<close>

definition pretrained :: "zoo \<Rightarrow> string \<Rightarrow> bool \<Rightarrow> net" where
  "pretrained z model_name use_pretrained =
     (if model_name = ''resnet'' then resnet18 z use_pretrained
      else if model_name = ''alexnet'' then alexnet z use_pretrained
      else if model_name = ''vgg'' then vgg11_bn z use_pretrained
      else if model_name = ''squeezenet'' then squeezenet1_0 z use_pretrained
      else if model_name = ''densenet'' then densenet121 z use_pretrained
      else inception_v3 z use_pretrained)"

text \<open>The attribute paths that \<open>initialize_model\<close> assigns a new layer to, for a name.\<close>

definition reshaped :: "string \<Rightarrow> string list" where
  "reshaped model_name =
     (if model_name = ''resnet'' then [''fc'']
      else if model_name = ''alexnet'' then [''classifier.6'']
      else if model_name = ''vgg'' then [''classifier.6'']
      else if model_name = ''squeezenet'' then [''classifier.1'']
      else if model_name = ''densenet'' then [''classifier'']
      else if model_name = ''inception'' then [''AuxLogits.fc'', ''fc'']
      else [])"

text \<open>
  What the notebook's text says of the networks of torchvision: the final layer is where
  \<open>initialize_model\<close> reaches for it, a \<open>Linear\<close> layer, or for squeezenet the
  convolution with 512 input channels; and every parameter of a loaded network has
  \<open>requires_grad=True\<close>.
\<close>

definition has_final_layer :: "net \<Rightarrow> string \<Rightarrow> bool" where
  "has_final_layer m model_name \<longleftrightarrow>
     (\<forall>path \<in> set (reshaped model_name).
        case modules m path of
          None \<Rightarrow> False
        | Some l \<Rightarrow> if model_name = ''squeezenet'' then in_features l = 512
                    else kind l = Linear)"

definition all_trainable :: "net \<Rightarrow> bool" where
  "all_trainable m \<longleftrightarrow>
     (\<forall>path l. modules m path = Some l \<longrightarrow> (\<forall>b \<in> set (requires_grad l). b))"

text \<open>Whether the model returned the pair of outputs.\<close>

fun is_pair :: "'o model_output \<Rightarrow> bool" where
  "is_pair (InceptionOutputs _ _) = True"
| "is_pair (Tensor _) = False"

text \<open>The output the predictions are taken from.\<close>

fun primary :: "'o model_output \<Rightarrow> 'o" where
  "primary (Tensor outputs) = outputs"
| "primary (InceptionOutputs outputs _) = outputs"

text \<open>
  A model and a \<open>torch.max\<close> that give one prediction for each input of the batch, as a
  classifier does.
\<close>

definition one_prediction_per_input :: "('w, 'r, 'x, 'o) framework \<Rightarrow> bool" where
  "one_prediction_per_input fw \<longleftrightarrow>
     (\<forall>mode w r xs. length (torch_max fw (primary (fst (forward fw mode w r xs)))) = length xs)"

text \<open>
  The calls a run is expected to make, with the value of the loss left out of
  \<open>Backward\<close>: for one batch, for one phase of an epoch (the change of mode, then the
  calls of each batch the loader yields), and for one epoch.
\<close>

fun erase_loss :: "call \<Rightarrow> call" where
  "erase_loss (Backward _) = Backward 0"
| "erase_loss c = c"

definition step_calls :: "bool \<Rightarrow> phase \<Rightarrow> call list" where
  "step_calls is_inception phase =
     [ZeroGrad, Forward, Criterion Primary]
     @ (if is_inception \<and> phase = Train then [Criterion Auxiliary] else [])
     @ [TorchMax]
     @ (if phase = Train then [Backward 0, OptimizerStep] else [])"

definition phase_calls :: "bool \<Rightarrow> (phase \<Rightarrow> 'x dataloader) \<Rightarrow> nat \<Rightarrow> phase \<Rightarrow> call list" where
  "phase_calls is_inception dataloaders epoch phase =
     (if phase = Train then ModelTrain else ModelEval)
     # concat (replicate (length (batches (dataloaders phase) epoch))
                 (step_calls is_inception phase))"

definition epoch_calls :: "bool \<Rightarrow> (phase \<Rightarrow> 'x dataloader) \<Rightarrow> nat \<Rightarrow> call list" where
  "epoch_calls is_inception dataloaders epoch =
     phase_calls is_inception dataloaders epoch Train
     @ phase_calls is_inception dataloaders epoch Val"

text \<open>The phases a sequence of calls went through: one for each change of the mode.\<close>

fun phases_of :: "call list \<Rightarrow> phase list" where
  "phases_of [] = []"
| "phases_of (ModelTrain # cs) = Train # phases_of cs"
| "phases_of (ModelEval # cs) = Val # phases_of cs"
| "phases_of (_ # cs) = phases_of cs"

section \<open>Example inputs\<close>

text \<open>
  A zoo with the final layers the notebook prints, each network with one more module in
  front of them.
\<close>

definition example_net :: "(string \<times> layer) list \<Rightarrow> net" where
  "example_net final =
     \<lparr>modules = map_of ((''features.0'',
          \<lparr>kind = Other, in_features = 3, out_features = 64, requires_grad = [True, True]\<rparr>)
          # final),
      attr_num_classes = 1000\<rparr>"

definition example_zoo :: zoo where
  "example_zoo =
     \<lparr>resnet18 = (\<lambda>_. example_net [(''fc'', nn_Linear 512 1000)]),
      alexnet = (\<lambda>_. example_net [(''classifier.6'', nn_Linear 4096 1000)]),
      vgg11_bn = (\<lambda>_. example_net [(''classifier.6'', nn_Linear 4096 1000)]),
      squeezenet1_0 = (\<lambda>_. example_net [(''classifier.1'', nn_Conv2d 512 1000 (1, 1) (1, 1))]),
      densenet121 = (\<lambda>_. example_net [(''classifier'', nn_Linear 1024 1000)]),
      inception_v3 = (\<lambda>_. example_net [(''AuxLogits.fc'', nn_Linear 768 1000),
                                         (''fc'', nn_Linear 2048 1000)])\<rparr>"

text \<open>
  A framework whose model has one weight and predicts the class of that number for every
  input; the loss is the number of wrong rows; a step of the optimizer adds one to the
  weight and counts the step.  With \<open>inception\<close> the model returns a second output in
  training mode.
\<close>

definition example_framework :: "bool \<Rightarrow> (nat, nat, nat, nat list) framework" where
  "example_framework inception =
     \<lparr>zero_grad = (\<lambda>r. r),
      forward = (\<lambda>mode w r xs.
        (if inception \<and> mode then InceptionOutputs (map (\<lambda>_. w) xs) (map (\<lambda>_. 0) xs)
         else Tensor (map (\<lambda>_. w) xs), w, r)),
      criterion = (\<lambda>outputs labels.
        real (length (filter (\<lambda>(p, l). p \<noteq> l) (zip outputs labels)))),
      torch_max = (\<lambda>outputs. outputs),
      backward = (\<lambda>loss r. r),
      optimizer_step = (\<lambda>w r. (Suc w, Suc r))\<rparr>"

definition example_model :: "(nat, nat) world" where
  "example_model = \<lparr>weights = 0, training = True, optim = 0, calls = []\<rparr>"

text \<open>
  Loaders: one training batch of two samples, and a validation set with the given labels,
  one sample in each batch.
\<close>

definition example_loaders :: "nat list \<Rightarrow> phase \<Rightarrow> nat dataloader" where
  "example_loaders val_labels phase =
     (case phase of
        Train \<Rightarrow> \<lparr>dataset_len = 2, batches = (\<lambda>epoch. [[(0, 1), (1, 1)]])\<rparr>
      | Val \<Rightarrow> \<lparr>dataset_len = length val_labels,
                batches = (\<lambda>epoch. map (\<lambda>l. [(0, l)]) val_labels)\<rparr>)"



section \<open>The adapter: lemmas\<close>

lemma modules_frozen:
  "modules (set_parameter_requires_grad m fe) path =
     (if fe then map_option (\<lambda>l. l\<lparr>requires_grad := map (\<lambda>_. False) (requires_grad l)\<rparr>)
                   (modules m path)
      else modules m path)"
  by (simp add: set_parameter_requires_grad_def)

lemma attr_frozen:
  "attr_num_classes (set_parameter_requires_grad m fe) = attr_num_classes m"
  by (simp add: set_parameter_requires_grad_def)

lemma get_in_features_frozen:
  "get_in_features (set_parameter_requires_grad m fe) path = get_in_features m path"
  by (cases "modules m path") (simp_all add: get_in_features_def modules_frozen)

lemma get_in_features_setattr:
  "path' \<noteq> path \<Longrightarrow> get_in_features (setattr m path l) path' = get_in_features m path'"
  by (simp add: get_in_features_def setattr_def)

lemma reshape_linear_Inr:
  "reshape_linear m path nc = Inr m' \<longleftrightarrow>
     (\<exists>i. get_in_features m path = Inr i \<and> m' = setattr m path (nn_Linear i nc))"
  by (auto simp: reshape_linear_def split: sum.splits)

lemma setitem_Inr:
  "setitem m path l = Inr m' \<longleftrightarrow> (modules m path \<noteq> None \<and> m' = setattr m path l)"
  by (auto simp: setitem_def split: option.splits)

lemma get_in_features_Inr:
  "get_in_features m path = Inr i \<longleftrightarrow>
     (\<exists>l. modules m path = Some l \<and> kind l = Linear \<and> in_features l = i)"
  by (auto simp: get_in_features_def split: option.splits)


lemma initialize_model_exit:
  assumes "model_name \<notin> set model_names"
  shows "initialize_model z py_exit model_name nc fe up =
           (case py_exit of Some e \<Rightarrow> Inl e | None \<Rightarrow> Inr (None, 0))"
  using assms unfolding model_names_def initialize_model_def by simp

lemma initialize_model_resnet:
  "initialize_model z py_exit ''resnet'' nc fe up =
     (case reshape_linear (set_parameter_requires_grad (resnet18 z up) fe) ''fc'' nc of
        Inl e \<Rightarrow> Inl e | Inr m \<Rightarrow> Inr (Some m, 224))"
  unfolding initialize_model_def by (simp add: Let_def)

lemma initialize_model_alexnet:
  "initialize_model z py_exit ''alexnet'' nc fe up =
     (case reshape_linear (set_parameter_requires_grad (alexnet z up) fe) ''classifier.6'' nc of
        Inl e \<Rightarrow> Inl e | Inr m \<Rightarrow> Inr (Some m, 224))"
  unfolding initialize_model_def by (simp add: Let_def)

lemma initialize_model_vgg:
  "initialize_model z py_exit ''vgg'' nc fe up =
     (case reshape_linear (set_parameter_requires_grad (vgg11_bn z up) fe) ''classifier.6'' nc of
        Inl e \<Rightarrow> Inl e | Inr m \<Rightarrow> Inr (Some m, 224))"
  unfolding initialize_model_def by (simp add: Let_def)

lemma initialize_model_squeezenet:
  "initialize_model z py_exit ''squeezenet'' nc fe up =
     (case setitem (set_parameter_requires_grad (squeezenet1_0 z up) fe) ''classifier.1''
             (nn_Conv2d 512 nc (1, 1) (1, 1)) of
        Inl e \<Rightarrow> Inl e | Inr m \<Rightarrow> Inr (Some (m\<lparr>attr_num_classes := nc\<rparr>), 224))"
  unfolding initialize_model_def by (simp add: Let_def)

lemma initialize_model_densenet:
  "initialize_model z py_exit ''densenet'' nc fe up =
     (case reshape_linear (set_parameter_requires_grad (densenet121 z up) fe) ''classifier'' nc of
        Inl e \<Rightarrow> Inl e | Inr m \<Rightarrow> Inr (Some m, 224))"
  unfolding initialize_model_def by (simp add: Let_def)

lemma initialize_model_inception:
  "initialize_model z py_exit ''inception'' nc fe up =
     (case reshape_linear (set_parameter_requires_grad (inception_v3 z up) fe) ''AuxLogits.fc'' nc of
        Inl e \<Rightarrow> Inl e
      | Inr m \<Rightarrow> (case reshape_linear m ''fc'' nc of
                    Inl e \<Rightarrow> Inl e | Inr m' \<Rightarrow> Inr (Some m', 299)))"
  unfolding initialize_model_def by (simp add: Let_def)


lemma model_name_cases:
  assumes "model_name \<in> set model_names"
  obtains "model_name = ''resnet''" | "model_name = ''alexnet''" | "model_name = ''vgg''"
    | "model_name = ''squeezenet''" | "model_name = ''densenet''" | "model_name = ''inception''"
proof -
  from assms have "model_name = ''resnet'' \<or> model_name = ''alexnet'' \<or> model_name = ''vgg''
      \<or> model_name = ''squeezenet'' \<or> model_name = ''densenet'' \<or> model_name = ''inception''"
    unfolding model_names_def by (simp only: list.set insert_iff empty_iff simp_thms)
  with that show thesis by (elim disjE) assumption+
qed

lemma reshape_linear_frozen:
  assumes "reshape_linear (set_parameter_requires_grad m0 fe) p nc = Inr m"
  shows "\<exists>l0. modules m0 p = Some l0 \<and> kind l0 = Linear
             \<and> modules m p = Some (nn_Linear (in_features l0) nc)"
    and "\<forall>path. path \<noteq> p \<longrightarrow> modules m path = modules (set_parameter_requires_grad m0 fe) path"
  using assms
  by (auto simp: reshape_linear_Inr get_in_features_frozen get_in_features_Inr setattr_def)

lemma reshape_linear_again:
  assumes "reshape_linear m1 p nc = Inr m"
  shows "\<exists>l0. modules m1 p = Some l0 \<and> kind l0 = Linear
             \<and> modules m p = Some (nn_Linear (in_features l0) nc)"
    and "\<forall>path. path \<noteq> p \<longrightarrow> modules m path = modules m1 path"
  using assms
  by (auto simp: reshape_linear_Inr get_in_features_Inr setattr_def)

lemma initialize_model_names:
  assumes "initialize_model z py_exit model_name nc fe up = Inr (Some m, sz)"
  shows "model_name \<in> set model_names"
  using assms initialize_model_exit [of model_name z py_exit nc fe up]
  by (cases py_exit) auto

lemma initialize_model_size:
  assumes "initialize_model z py_exit model_name nc fe up = Inr (Some m, sz)"
  shows "sz = (if model_name = ''inception'' then 299 else 224)"
  using initialize_model_names [OF assms]
proof (cases rule: model_name_cases)
  case 1 with assms show ?thesis by (auto simp: initialize_model_resnet split: sum.splits)
next
  case 2 with assms show ?thesis by (auto simp: initialize_model_alexnet split: sum.splits)
next
  case 3 with assms show ?thesis by (auto simp: initialize_model_vgg split: sum.splits)
next
  case 4 with assms show ?thesis by (auto simp: initialize_model_squeezenet split: sum.splits)
next
  case 5 with assms show ?thesis by (auto simp: initialize_model_densenet split: sum.splits)
next
  case 6 with assms show ?thesis by (auto simp: initialize_model_inception split: sum.splits)
qed

lemma initialize_model_Some:
  assumes "model_name \<in> set model_names"
      and "initialize_model z py_exit model_name nc fe up = Inr (mo, sz)"
  shows "\<exists>m. mo = Some m"
  using assms(1)
proof (cases rule: model_name_cases)
  case 1 with assms(2) show ?thesis by (auto simp: initialize_model_resnet split: sum.splits)
next
  case 2 with assms(2) show ?thesis by (auto simp: initialize_model_alexnet split: sum.splits)
next
  case 3 with assms(2) show ?thesis by (auto simp: initialize_model_vgg split: sum.splits)
next
  case 4 with assms(2) show ?thesis by (auto simp: initialize_model_squeezenet split: sum.splits)
next
  case 5 with assms(2) show ?thesis by (auto simp: initialize_model_densenet split: sum.splits)
next
  case 6 with assms(2) show ?thesis by (auto simp: initialize_model_inception split: sum.splits)
qed

lemma initialize_model_new:
  assumes "initialize_model z py_exit model_name nc fe up = Inr (Some m, sz)"
      and "path \<in> set (reshaped model_name)"
  shows "\<exists>l0. modules (pretrained z model_name up) path = Some l0
           \<and> (model_name \<noteq> ''squeezenet'' \<longrightarrow> kind l0 = Linear)
           \<and> modules m path =
               Some (if model_name = ''squeezenet'' then nn_Conv2d 512 nc (1, 1) (1, 1)
                     else nn_Linear (in_features l0) nc)"
  using initialize_model_names [OF assms(1)]
proof (cases rule: model_name_cases)
  case 1
  with assms obtain m' where
    "reshape_linear (set_parameter_requires_grad (resnet18 z up) fe) ''fc'' nc = Inr m'" "m = m'"
    by (auto simp: initialize_model_resnet split: sum.splits)
  from reshape_linear_frozen(1) [OF this(1)] this(2) 1 assms(2) show ?thesis
    by (simp add: reshaped_def pretrained_def)
next
  case 2
  with assms obtain m' where
    "reshape_linear (set_parameter_requires_grad (alexnet z up) fe) ''classifier.6'' nc = Inr m'"
    "m = m'"
    by (auto simp: initialize_model_alexnet split: sum.splits)
  from reshape_linear_frozen(1) [OF this(1)] this(2) 2 assms(2) show ?thesis
    by (simp add: reshaped_def pretrained_def)
next
  case 3
  with assms obtain m' where
    "reshape_linear (set_parameter_requires_grad (vgg11_bn z up) fe) ''classifier.6'' nc = Inr m'"
    "m = m'"
    by (auto simp: initialize_model_vgg split: sum.splits)
  from reshape_linear_frozen(1) [OF this(1)] this(2) 3 assms(2) show ?thesis
    by (simp add: reshaped_def pretrained_def)
next
  case 4
  with assms obtain m' where
    "setitem (set_parameter_requires_grad (squeezenet1_0 z up) fe) ''classifier.1''
       (nn_Conv2d 512 nc (1, 1) (1, 1)) = Inr m'" "m = m'\<lparr>attr_num_classes := nc\<rparr>"
    by (auto simp: initialize_model_squeezenet split: sum.splits)
  with 4 assms(2) show ?thesis
    by (auto simp: reshaped_def pretrained_def setitem_Inr setattr_def modules_frozen
          split: if_splits)
next
  case 5
  with assms obtain m' where
    "reshape_linear (set_parameter_requires_grad (densenet121 z up) fe) ''classifier'' nc = Inr m'"
    "m = m'"
    by (auto simp: initialize_model_densenet split: sum.splits)
  from reshape_linear_frozen(1) [OF this(1)] this(2) 5 assms(2) show ?thesis
    by (simp add: reshaped_def pretrained_def)
next
  case 6
  with assms obtain m1 where
    a: "reshape_linear (set_parameter_requires_grad (inception_v3 z up) fe) ''AuxLogits.fc'' nc
          = Inr m1"
    and b: "reshape_linear m1 ''fc'' nc = Inr m"
    by (auto simp: initialize_model_inception split: sum.splits)
  note a1 = reshape_linear_frozen [OF a] and b1 = reshape_linear_again [OF b]
  from assms(2) 6 have "path = ''AuxLogits.fc'' \<or> path = ''fc''"
    by (simp add: reshaped_def)
  then show ?thesis
  proof
    assume p: "path = ''AuxLogits.fc''"
    from b1(2) have "modules m ''AuxLogits.fc'' = modules m1 ''AuxLogits.fc''" by simp
    with a1(1) p 6 show ?thesis by (simp add: pretrained_def)
  next
    assume p: "path = ''fc''"
    from a1(2) have "modules m1 ''fc'' = modules (set_parameter_requires_grad (inception_v3 z up) fe) ''fc''"
      by simp
    with b1(1) p 6 show ?thesis
      by (auto simp: pretrained_def modules_frozen split: if_splits)
  qed
qed

lemma initialize_model_old:
  assumes "initialize_model z py_exit model_name nc fe up = Inr (Some m, sz)"
      and "path \<notin> set (reshaped model_name)"
  shows "modules m path
           = modules (set_parameter_requires_grad (pretrained z model_name up) fe) path"
  using initialize_model_names [OF assms(1)]
proof (cases rule: model_name_cases)
  case 1
  with assms obtain m' where
    "reshape_linear (set_parameter_requires_grad (resnet18 z up) fe) ''fc'' nc = Inr m'" "m = m'"
    by (auto simp: initialize_model_resnet split: sum.splits)
  from reshape_linear_frozen(2) [OF this(1)] this(2) 1 assms(2) show ?thesis
    by (simp add: reshaped_def pretrained_def)
next
  case 2
  with assms obtain m' where
    "reshape_linear (set_parameter_requires_grad (alexnet z up) fe) ''classifier.6'' nc = Inr m'"
    "m = m'"
    by (auto simp: initialize_model_alexnet split: sum.splits)
  from reshape_linear_frozen(2) [OF this(1)] this(2) 2 assms(2) show ?thesis
    by (simp add: reshaped_def pretrained_def)
next
  case 3
  with assms obtain m' where
    "reshape_linear (set_parameter_requires_grad (vgg11_bn z up) fe) ''classifier.6'' nc = Inr m'"
    "m = m'"
    by (auto simp: initialize_model_vgg split: sum.splits)
  from reshape_linear_frozen(2) [OF this(1)] this(2) 3 assms(2) show ?thesis
    by (simp add: reshaped_def pretrained_def)
next
  case 4
  with assms obtain m' where
    "setitem (set_parameter_requires_grad (squeezenet1_0 z up) fe) ''classifier.1''
       (nn_Conv2d 512 nc (1, 1) (1, 1)) = Inr m'" "m = m'\<lparr>attr_num_classes := nc\<rparr>"
    by (auto simp: initialize_model_squeezenet split: sum.splits)
  with 4 assms(2) show ?thesis
    by (auto simp: reshaped_def pretrained_def setitem_Inr setattr_def)
next
  case 5
  with assms obtain m' where
    "reshape_linear (set_parameter_requires_grad (densenet121 z up) fe) ''classifier'' nc = Inr m'"
    "m = m'"
    by (auto simp: initialize_model_densenet split: sum.splits)
  from reshape_linear_frozen(2) [OF this(1)] this(2) 5 assms(2) show ?thesis
    by (simp add: reshaped_def pretrained_def)
next
  case 6
  with assms obtain m1 where
    a: "reshape_linear (set_parameter_requires_grad (inception_v3 z up) fe) ''AuxLogits.fc'' nc
          = Inr m1"
    and b: "reshape_linear m1 ''fc'' nc = Inr m"
    by (auto simp: initialize_model_inception split: sum.splits)
  from assms(2) 6 have "path \<noteq> ''AuxLogits.fc''" "path \<noteq> ''fc''"
    by (simp_all add: reshaped_def)
  with reshape_linear_frozen(2) [OF a] reshape_linear_again(2) [OF b] 6 show ?thesis
    by (simp add: pretrained_def)
qed

section \<open>The training loop: lemmas\<close>

lemma sum_eq_le:
  assumes "sum_eq preds labels = Inr k" and "length preds = length labels"
  shows "k \<le> length labels"
proof -
  from assms have "k = length (filter (\<lambda>(p, l). p = l) (zip preds labels))"
    by (simp add: sum_eq_def)
  also have "\<dots> \<le> length (zip preds labels)" by (rule length_filter_le)
  finally show ?thesis by simp
qed

lemma sum_eq_returns:
  "length preds = length labels \<Longrightarrow> \<exists>k. sum_eq preds labels = Inr k"
  by (simp add: sum_eq_def)

lemma batch_step_Inr:
  assumes "batch_step fw is_inception phase inputs labels st = Inr (st', loss, preds)"
  shows "(\<exists>outputs aux w r. is_inception \<and> phase = Train
            \<and> forward fw (training st) (weights st) (zero_grad fw (optim st)) inputs
                = (InceptionOutputs outputs aux, w, r)
            \<and> loss = criterion fw outputs labels + 0.4 * criterion fw aux labels
            \<and> preds = torch_max fw outputs
            \<and> st' = st\<lparr>weights := fst (optimizer_step fw w (backward fw loss r)),
                        optim := snd (optimizer_step fw w (backward fw loss r)),
                        calls := calls st @ [ZeroGrad, Forward, Criterion Primary,
                                             Criterion Auxiliary, TorchMax, Backward loss,
                                             OptimizerStep]\<rparr>)
       \<or> (\<exists>outputs w r. \<not> is_inception \<and> phase = Train
            \<and> forward fw (training st) (weights st) (zero_grad fw (optim st)) inputs
                = (Tensor outputs, w, r)
            \<and> loss = criterion fw outputs labels
            \<and> preds = torch_max fw outputs
            \<and> st' = st\<lparr>weights := fst (optimizer_step fw w (backward fw loss r)),
                        optim := snd (optimizer_step fw w (backward fw loss r)),
                        calls := calls st @ [ZeroGrad, Forward, Criterion Primary,
                                             TorchMax, Backward loss, OptimizerStep]\<rparr>)
       \<or> (\<exists>outputs w r. phase = Val
            \<and> forward fw (training st) (weights st) (zero_grad fw (optim st)) inputs
                = (Tensor outputs, w, r)
            \<and> loss = criterion fw outputs labels
            \<and> preds = torch_max fw outputs
            \<and> st' = st\<lparr>weights := w, optim := r,
                        calls := calls st @ [ZeroGrad, Forward, Criterion Primary,
                                             TorchMax]\<rparr>)"
proof -
  obtain out w r where fwd:
    "forward fw (training st) (weights st) (zero_grad fw (optim st)) inputs = (out, w, r)"
    by (metis prod_cases3)
  with assms show ?thesis
    by (cases out; cases phase; cases is_inception)
       (auto simp: batch_step_def Let_def split: prod.splits)
qed

lemma batch_step_cases:
  assumes "batch_step fw is_inception phase inputs labels st = Inr (st', loss, preds)"
  obtains (pair) outputs aux w r where
      "is_inception" "phase = Train"
      "forward fw (training st) (weights st) (zero_grad fw (optim st)) inputs
         = (InceptionOutputs outputs aux, w, r)"
      "loss = criterion fw outputs labels + 0.4 * criterion fw aux labels"
      "preds = torch_max fw outputs"
      "st' = st\<lparr>weights := fst (optimizer_step fw w (backward fw loss r)),
                optim := snd (optimizer_step fw w (backward fw loss r)),
                calls := calls st @ [ZeroGrad, Forward, Criterion Primary, Criterion Auxiliary,
                                     TorchMax, Backward loss, OptimizerStep]\<rparr>"
    | (single_train) outputs w r where
      "\<not> is_inception" "phase = Train"
      "forward fw (training st) (weights st) (zero_grad fw (optim st)) inputs
         = (Tensor outputs, w, r)"
      "loss = criterion fw outputs labels"
      "preds = torch_max fw outputs"
      "st' = st\<lparr>weights := fst (optimizer_step fw w (backward fw loss r)),
                optim := snd (optimizer_step fw w (backward fw loss r)),
                calls := calls st @ [ZeroGrad, Forward, Criterion Primary,
                                     TorchMax, Backward loss, OptimizerStep]\<rparr>"
    | (single_val) outputs w r where
      "phase = Val"
      "forward fw (training st) (weights st) (zero_grad fw (optim st)) inputs
         = (Tensor outputs, w, r)"
      "loss = criterion fw outputs labels"
      "preds = torch_max fw outputs"
      "st' = st\<lparr>weights := w, optim := r,
                calls := calls st @ [ZeroGrad, Forward, Criterion Primary, TorchMax]\<rparr>"
  using batch_step_Inr [OF assms] by (elim disjE exE conjE) (erule pair single_train single_val; assumption)+

lemma phases_of_append: "phases_of (xs @ ys) = phases_of xs @ phases_of ys"
  by (induction xs rule: phases_of.induct) simp_all

lemma batch_step_training:
  assumes "batch_step fw is_inception phase inputs labels st = Inr (st', loss, preds)"
  shows "training st' = training st"
  using assms by (cases rule: batch_step_cases) simp_all

lemma batch_step_phases:
  assumes "batch_step fw is_inception phase inputs labels st = Inr (st', loss, preds)"
  shows "phases_of (calls st') = phases_of (calls st)"
  using assms by (cases rule: batch_step_cases) (simp_all add: phases_of_append)

lemma batch_step_val_calls:
  assumes "batch_step fw is_inception Val inputs labels st = Inr (st', loss, preds)"
  shows "calls st' = calls st @ [ZeroGrad, Forward, Criterion Primary, TorchMax]"
  using assms by (cases rule: batch_step_cases) simp_all

lemma batch_step_preds:
  assumes "batch_step fw is_inception phase inputs labels st = Inr (st', loss, preds)"
  shows "preds = torch_max fw (primary (fst
           (forward fw (training st) (weights st) (zero_grad fw (optim st)) inputs)))"
  using assms by (cases rule: batch_step_cases) simp_all

lemma batch_step_returns:
  assumes "is_pair (fst (forward fw (training st) (weights st) (zero_grad fw (optim st)) inputs))
             = (is_inception \<and> phase = Train)"
  shows "\<exists>st' loss preds. batch_step fw is_inception phase inputs labels st = Inr (st', loss, preds)"
proof -
  obtain out w r where fwd:
    "forward fw (training st) (weights st) (zero_grad fw (optim st)) inputs = (out, w, r)"
    by (metis prod_cases3)
  with assms show ?thesis
    by (cases out) (auto simp: batch_step_def Let_def split: prod.splits)
qed

lemma run_batches_ConsE:
  assumes "run_batches fw is_inception phase (b # bs) (st, l, c) = Inr res"
  obtains st1 loss preds k where
    "batch_step fw is_inception phase (map fst b) (map snd b) st = Inr (st1, loss, preds)"
    "sum_eq preds (map snd b) = Inr k"
    "run_batches fw is_inception phase bs (st1, l + loss * real (length b), c + k) = Inr res"
  using assms by (auto simp: Let_def split: sum.splits)

lemma run_batches_training:
  "run_batches fw is_inception phase bs (st, l, c) = Inr (st', l', c')
     \<Longrightarrow> training st' = training st"
proof (induction bs arbitrary: st l c)
  case Nil
  then show ?case by simp
next
  case (Cons b bs)
  from Cons.prems show ?case
  proof (cases rule: run_batches_ConsE)
    case (1 st1 loss preds k)
    from Cons.IH [OF 1(3)] batch_step_training [OF 1(1)] show ?thesis by simp
  qed
qed

lemma run_batches_phases:
  "run_batches fw is_inception phase bs (st, l, c) = Inr (st', l', c')
     \<Longrightarrow> phases_of (calls st') = phases_of (calls st)"
proof (induction bs arbitrary: st l c)
  case Nil
  then show ?case by simp
next
  case (Cons b bs)
  from Cons.prems show ?case
  proof (cases rule: run_batches_ConsE)
    case (1 st1 loss preds k)
    from Cons.IH [OF 1(3)] batch_step_phases [OF 1(1)] show ?thesis by simp
  qed
qed

lemma run_batches_corrects:
  assumes "one_prediction_per_input fw"
  shows "run_batches fw is_inception phase bs (st, l, c) = Inr (st', l', c')
     \<Longrightarrow> c' \<le> c + sum_list (map length bs)"
proof (induction bs arbitrary: st l c)
  case Nil
  then show ?case by simp
next
  case (Cons b bs)
  from Cons.prems show ?case
  proof (cases rule: run_batches_ConsE)
    case (1 st1 loss preds k)
    from batch_step_preds [OF 1(1)] assms have "length preds = length (map snd b)"
      by (simp add: one_prediction_per_input_def)
    from sum_eq_le [OF 1(2) this] have "k \<le> length b" by simp
    with Cons.IH [OF 1(3)] show ?thesis by simp
  qed
qed

lemma run_batches_val_calls:
  "run_batches fw is_inception Val bs (st, l, c) = Inr (st', l', c')
     \<Longrightarrow> \<exists>cs. calls st' = calls st @ cs
              \<and> set cs \<subseteq> {ZeroGrad, Forward, Criterion Primary, TorchMax}"
proof (induction bs arbitrary: st l c)
  case Nil
  then show ?case by simp
next
  case (Cons b bs)
  from Cons.prems show ?case
  proof (cases rule: run_batches_ConsE)
    case (1 st1 loss preds k)
    from Cons.IH [OF 1(3)] obtain cs where
      cs: "calls st' = calls st1 @ cs"
          "set cs \<subseteq> {ZeroGrad, Forward, Criterion Primary, TorchMax}"
      by blast
    from batch_step_val_calls [OF 1(1)] cs
    have "calls st' = calls st @ ([ZeroGrad, Forward, Criterion Primary, TorchMax] @ cs)"
      by simp
    moreover have "set ([ZeroGrad, Forward, Criterion Primary, TorchMax] @ cs)
                     \<subseteq> {ZeroGrad, Forward, Criterion Primary, TorchMax}"
      using cs(2) by simp
    ultimately show ?thesis by blast
  qed
qed

lemma run_batches_returns:
  assumes "\<And>mode w r xs. is_pair (fst (forward fw mode w r xs)) = (is_inception \<and> mode)"
      and "one_prediction_per_input fw"
      and "training st = (phase = Train)"
  shows "\<exists>res. run_batches fw is_inception phase bs (st, l, c) = Inr res"
  using assms(3)
proof (induction bs arbitrary: st l c)
  case Nil
  then show ?case by simp
next
  case (Cons b bs)
  have "is_pair (fst (forward fw (training st) (weights st) (zero_grad fw (optim st)) (map fst b)))
          = (is_inception \<and> phase = Train)"
    using assms(1) Cons.prems by simp
  from batch_step_returns [OF this] obtain st1 loss preds where
    step: "batch_step fw is_inception phase (map fst b) (map snd b) st = Inr (st1, loss, preds)"
    by blast
  from batch_step_preds [OF step] assms(2) have "length preds = length (map snd b)"
    by (simp add: one_prediction_per_input_def)
  from sum_eq_returns [OF this] obtain k where k: "sum_eq preds (map snd b) = Inr k" by blast
  from batch_step_training [OF step] Cons.prems have "training st1 = (phase = Train)" by simp
  from Cons.IH [OF this] step k show ?case by (simp add: Let_def)
qed

lemma run_phase_facts:
  assumes "run_phase fw is_inception dl epoch phase st = Inr (st', epoch_loss, epoch_acc)"
  shows "phases_of (calls st') = phases_of (calls st) @ [phase]"
    and "training st' = (phase = Train)"
    and "0 \<le> epoch_acc"
    and "one_prediction_per_input fw \<Longrightarrow>
         sum_list (map length (batches (dl phase) epoch)) \<le> dataset_len (dl phase)
           \<Longrightarrow> epoch_acc \<le> 1"
proof -
  define st1 where "st1 = (if phase = Train
      then st\<lparr>training := True, calls := calls st @ [ModelTrain]\<rparr>
      else st\<lparr>training := False, calls := calls st @ [ModelEval]\<rparr>)"
  from assms obtain running_loss running_corrects where
    rb: "run_batches fw is_inception phase (batches (dl phase) epoch) (st1, 0, 0)
           = Inr (st', running_loss, running_corrects)"
    and n: "dataset_len (dl phase) \<noteq> 0"
    and acc: "epoch_acc = real running_corrects / real (dataset_len (dl phase))"
    unfolding run_phase_def st1_def
    by (auto simp: Let_def split: sum.splits if_splits)
  have "phases_of (calls st1) = phases_of (calls st) @ [phase]"
    unfolding st1_def by (cases phase) (simp_all add: phases_of_append)
  with run_batches_phases [OF rb]
  show "phases_of (calls st') = phases_of (calls st) @ [phase]" by simp
  have "training st1 = (phase = Train)"
    unfolding st1_def by simp
  with run_batches_training [OF rb]
  show "training st' = (phase = Train)" by simp
  show "0 \<le> epoch_acc" using acc by simp
  assume "one_prediction_per_input fw"
    and "sum_list (map length (batches (dl phase) epoch)) \<le> dataset_len (dl phase)"
  with run_batches_corrects [OF _ rb] have "running_corrects \<le> dataset_len (dl phase)" by simp
  with n show "epoch_acc \<le> 1" using acc by simp
qed

lemma run_phase_val_calls:
  assumes "run_phase fw is_inception dl epoch Val st = Inr (st', epoch_loss, epoch_acc)"
  shows "\<exists>cs. calls st' = calls st @ ModelEval # cs
              \<and> set cs \<subseteq> {ZeroGrad, Forward, Criterion Primary, TorchMax}"
proof -
  from assms obtain running_loss running_corrects where
    rb: "run_batches fw is_inception Val (batches (dl Val) epoch)
           (st\<lparr>training := False, calls := calls st @ [ModelEval]\<rparr>, 0, 0)
           = Inr (st', running_loss, running_corrects)"
    unfolding run_phase_def
    by (auto simp: Let_def split: sum.splits if_splits)
  from run_batches_val_calls [OF rb] show ?thesis by simp
qed

lemma run_phase_returns:
  assumes "\<And>mode w r xs. is_pair (fst (forward fw mode w r xs)) = (is_inception \<and> mode)"
      and "one_prediction_per_input fw"
      and "dataset_len (dl phase) \<noteq> 0" and "batches (dl phase) epoch \<noteq> []"
  shows "\<exists>res. run_phase fw is_inception dl epoch phase st = Inr res"
proof -
  define st1 where "st1 = (if phase = Train
      then st\<lparr>training := True, calls := calls st @ [ModelTrain]\<rparr>
      else st\<lparr>training := False, calls := calls st @ [ModelEval]\<rparr>)"
  have "training st1 = (phase = Train)" unfolding st1_def by simp
  from run_batches_returns [of fw is_inception st1 phase, OF assms(1,2) this]
  obtain res where
    "run_batches fw is_inception phase (batches (dl phase) epoch) (st1, 0, 0) = Inr res"
    by blast
  with assms(3,4) show ?thesis
    unfolding run_phase_def st1_def by (cases res) (auto simp: Let_def)
qed

text \<open>One epoch.\<close>

lemma run_epoch_facts:
  assumes "run_phases fw is_inception dl epoch [Train, Val] ls = Inr ls'"
  obtains epoch_acc where
    "val_acc_history ls' = val_acc_history ls @ [epoch_acc]"
    "0 \<le> epoch_acc"
    "one_prediction_per_input fw \<Longrightarrow>
     sum_list (map length (batches (dl Val) epoch)) \<le> dataset_len (dl Val) \<Longrightarrow> epoch_acc \<le> 1"
    "best_acc ls < epoch_acc \<Longrightarrow>
       best_acc ls' = epoch_acc \<and> best_model_wts ls' = weights (model ls')"
    "\<not> best_acc ls < epoch_acc \<Longrightarrow>
       best_acc ls' = best_acc ls \<and> best_model_wts ls' = best_model_wts ls"
    "phases_of (calls (model ls')) = phases_of (calls (model ls)) @ [Train, Val]"
    "training (model ls') = False"
proof -
  from assms obtain ls1 where
    p1: "phase_body fw is_inception dl epoch Train ls = Inr ls1"
    and p2: "phase_body fw is_inception dl epoch Val ls1 = Inr ls'"
    by (auto split: sum.splits)
  from p1 obtain st1 l1 a1 where
    r1: "run_phase fw is_inception dl epoch Train (model ls) = Inr (st1, l1, a1)"
    and ls1: "ls1 = ls\<lparr>model := st1\<rparr>"
    unfolding phase_body_def by (auto simp: Let_def split: sum.splits)
  from p2 obtain st2 l2 a2 where
    r2: "run_phase fw is_inception dl epoch Val (model ls1) = Inr (st2, l2, a2)"
    and ls': "ls' = (if best_acc ls1 < a2
                then ls1\<lparr>model := st2, best_acc := a2, best_model_wts := weights st2,
                         val_acc_history := val_acc_history ls1 @ [a2]\<rparr>
                else ls1\<lparr>model := st2, val_acc_history := val_acc_history ls1 @ [a2]\<rparr>)"
    unfolding phase_body_def by (auto simp: Let_def split: sum.splits)
  show thesis
  proof (rule that [of a2])
    show "val_acc_history ls' = val_acc_history ls @ [a2]"
      using ls' ls1 by simp
    show "0 \<le> a2" using run_phase_facts(3) [OF r2] .
    show "a2 \<le> 1" if "one_prediction_per_input fw"
      and "sum_list (map length (batches (dl Val) epoch)) \<le> dataset_len (dl Val)"
      using run_phase_facts(4) [OF r2 that] .
    show "best_acc ls' = a2 \<and> best_model_wts ls' = weights (model ls')" if "best_acc ls < a2"
      using that ls' ls1 by simp
    show "best_acc ls' = best_acc ls \<and> best_model_wts ls' = best_model_wts ls"
      if "\<not> best_acc ls < a2"
      using that ls' ls1 by simp
    have "model ls' = st2" using ls' by simp
    then show "phases_of (calls (model ls')) = phases_of (calls (model ls)) @ [Train, Val]"
      using run_phase_facts(1) [OF r1] run_phase_facts(1) [OF r2] ls1 by simp
    show "training (model ls') = False"
      using \<open>model ls' = st2\<close> run_phase_facts(2) [OF r2] by simp
  qed
qed

lemma run_epoch_returns:
  assumes "\<And>mode w r xs. is_pair (fst (forward fw mode w r xs)) = (is_inception \<and> mode)"
      and "one_prediction_per_input fw"
      and "\<And>phase. dataset_len (dl phase) \<noteq> 0 \<and> batches (dl phase) epoch \<noteq> []"
  shows "\<exists>ls'. run_phases fw is_inception dl epoch [Train, Val] ls = Inr ls'"
proof -
  from run_phase_returns [of fw is_inception dl Train epoch "model ls"] assms
  obtain res1 where r1: "run_phase fw is_inception dl epoch Train (model ls) = Inr res1"
    by blast
  then obtain ls1 where p1: "phase_body fw is_inception dl epoch Train ls = Inr ls1"
    unfolding phase_body_def by (cases res1) (auto simp: Let_def)
  from run_phase_returns [of fw is_inception dl Val epoch "model ls1"] assms
  obtain res2 where r2: "run_phase fw is_inception dl epoch Val (model ls1) = Inr res2"
    by blast
  then obtain ls2 where p2: "phase_body fw is_inception dl epoch Val ls1 = Inr ls2"
    unfolding phase_body_def by (cases res2) (auto simp: Let_def)
  from p1 p2 show ?thesis by simp
qed

lemma run_epochs_append:
  "run_epochs fw is_inception dl (es @ es') ls =
     (case run_epochs fw is_inception dl es ls of
        Inl e \<Rightarrow> Inl e
      | Inr ls' \<Rightarrow> run_epochs fw is_inception dl es' ls')"
  by (induction es arbitrary: ls) (auto split: sum.splits)

lemma run_epochs_single:
  "run_epochs fw is_inception dl [e] ls = run_phases fw is_inception dl e [Train, Val] ls"
  by (simp del: run_phases.simps split: sum.splits)

lemma train_loop_Suc:
  "train_loop fw mdl dl (int (Suc n)) is_inception =
     (case train_loop fw mdl dl (int n) is_inception of
        Inl e \<Rightarrow> Inl e
      | Inr ls \<Rightarrow> run_phases fw is_inception dl n [Train, Val] ls)"
proof -
  have "[0 ..< nat (int (Suc n))] = [0 ..< nat (int n)] @ [n]"
    by (simp only: nat_int upt_Suc_append [OF le0])
  then show ?thesis
    unfolding train_loop_def by (simp only: run_epochs_append run_epochs_single)
qed

lemma train_loop_nat:
  "train_loop fw mdl dl num_epochs is_inception
     = train_loop fw mdl dl (int (nat num_epochs)) is_inception"
  unfolding train_loop_def by simp


lemma train_loop_0:
  "train_loop fw mdl dl 0 is_inception =
     Inr \<lparr>model = mdl, best_model_wts = weights mdl, best_acc = 0, val_acc_history = []\<rparr>"
  unfolding train_loop_def by simp

lemma train_loop_SucE:
  assumes "train_loop fw mdl dl (int (Suc n)) is_inception = Inr ls'"
  obtains ls where "train_loop fw mdl dl (int n) is_inception = Inr ls"
    and "run_phases fw is_inception dl n [Train, Val] ls = Inr ls'"
  using assms unfolding train_loop_Suc by (auto split: sum.splits)

lemma concat_replicate_Suc:
  "concat (replicate (Suc n) xs) = concat (replicate n xs) @ xs"
  by (induction n) simp_all

lemma train_loop_history:
  assumes "train_loop fw mdl dl (int n) is_inception = Inr ls"
  shows "length (val_acc_history ls) = n
       \<and> (\<forall>a \<in> set (val_acc_history ls). 0 \<le> a)
       \<and> (one_prediction_per_input fw
            \<and> (\<forall>e<n. sum_list (map length (batches (dl Val) e)) \<le> dataset_len (dl Val))
            \<longrightarrow> (\<forall>a \<in> set (val_acc_history ls). a \<le> 1))
       \<and> phases_of (calls (model ls))
            = phases_of (calls mdl) @ concat (replicate n [Train, Val])
       \<and> (0 < n \<longrightarrow> \<not> training (model ls))"
  using assms
proof (induction n arbitrary: ls)
  case 0
  then show ?case by (auto simp: train_loop_0)
next
  case (Suc n)
  from Suc.prems obtain ls0 where
    l0: "train_loop fw mdl dl (int n) is_inception = Inr ls0"
    and ep: "run_phases fw is_inception dl n [Train, Val] ls0 = Inr ls"
    by (rule train_loop_SucE)
  note IH = Suc.IH [OF l0]
  from ep show ?case
  proof (cases rule: run_epoch_facts)
    case (1 a)
    have "length (val_acc_history ls) = Suc n" using 1(1) IH by simp
    moreover have "\<forall>x \<in> set (val_acc_history ls). 0 \<le> x" using 1(1,2) IH by auto
    moreover have "\<forall>x \<in> set (val_acc_history ls). x \<le> 1"
      if "one_prediction_per_input fw"
        and "\<forall>e<Suc n. sum_list (map length (batches (dl Val) e)) \<le> dataset_len (dl Val)"
    proof -
      from that have "a \<le> 1" using 1(3) by simp
      moreover from that IH have "\<forall>x \<in> set (val_acc_history ls0). x \<le> 1" by simp
      ultimately show ?thesis using 1(1) by auto
    qed
    moreover have "phases_of (calls (model ls))
        = phases_of (calls mdl) @ concat (replicate (Suc n) [Train, Val])"
      using 1(6) IH by (simp only: concat_replicate_Suc append_assoc)
    moreover have "\<not> training (model ls)" using 1(7) by simp
    ultimately show ?thesis by blast
  qed
qed


lemma train_loop_best:
  assumes "train_loop fw mdl dl (int n) is_inception = Inr ls"
  shows "0 \<le> best_acc ls
       \<and> (\<forall>a \<in> set (val_acc_history ls). a \<le> best_acc ls)
       \<and> ((\<exists>a \<in> set (val_acc_history ls). 0 < a) \<longrightarrow>
             (\<exists>k<n. val_acc_history ls ! k = best_acc ls
                  \<and> (\<forall>j<k. val_acc_history ls ! j < val_acc_history ls ! k)
                  \<and> (\<exists>lk. train_loop fw mdl dl (int (Suc k)) is_inception = Inr lk
                           \<and> best_model_wts ls = weights (model lk))))
       \<and> (\<not> (\<exists>a \<in> set (val_acc_history ls). 0 < a) \<longrightarrow>
             best_acc ls = 0 \<and> best_model_wts ls = weights mdl)"
  using assms
proof (induction n arbitrary: ls)
  case 0
  then show ?case by (auto simp: train_loop_0)
next
  case (Suc n)
  from Suc.prems obtain ls0 where
    l0: "train_loop fw mdl dl (int n) is_inception = Inr ls0"
    and ep: "run_phases fw is_inception dl n [Train, Val] ls0 = Inr ls"
    by (rule train_loop_SucE)
  note IH = Suc.IH [OF l0]
  have len0: "length (val_acc_history ls0) = n" using train_loop_history [OF l0] by simp
  from ep show ?case
  proof (cases rule: run_epoch_facts)
    case (1 a)
    note hist = 1(1)
    show ?thesis
    proof (cases "best_acc ls0 < a")
      case True
      with 1(4) have b: "best_acc ls = a" and w: "best_model_wts ls = weights (model ls)"
        by simp_all
      have old: "\<forall>x \<in> set (val_acc_history ls0). x < a" using IH True by auto
      have pos: "0 < a" using IH True by simp
      have "val_acc_history ls ! n = best_acc ls" using hist len0 b by (simp add: nth_append)
      moreover have "\<forall>j<n. val_acc_history ls ! j < val_acc_history ls ! n"
        using hist len0 old by (simp add: nth_append)
      moreover have "\<exists>lk. train_loop fw mdl dl (int (Suc n)) is_inception = Inr lk
                       \<and> best_model_wts ls = weights (model lk)"
        using Suc.prems w by blast
      ultimately have "\<exists>k<Suc n. val_acc_history ls ! k = best_acc ls
                  \<and> (\<forall>j<k. val_acc_history ls ! j < val_acc_history ls ! k)
                  \<and> (\<exists>lk. train_loop fw mdl dl (int (Suc k)) is_inception = Inr lk
                           \<and> best_model_wts ls = weights (model lk))"
        by blast
      moreover have "\<exists>x \<in> set (val_acc_history ls). 0 < x" using hist pos by simp
      moreover have "\<forall>x \<in> set (val_acc_history ls). x \<le> best_acc ls"
        using hist old b by auto
      moreover have "0 \<le> best_acc ls" using b pos by simp
      ultimately show ?thesis by simp
    next
      case False
      with 1(5) have b: "best_acc ls = best_acc ls0"
        and w: "best_model_wts ls = best_model_wts ls0" by simp_all
      have le: "\<forall>x \<in> set (val_acc_history ls). x \<le> best_acc ls"
        using hist IH False b by auto
      have nonneg: "0 \<le> best_acc ls" using IH b by simp
      show ?thesis
      proof (cases "\<exists>x \<in> set (val_acc_history ls). 0 < x")
        case True
        have "\<exists>x \<in> set (val_acc_history ls0). 0 < x"
        proof (rule ccontr)
          assume "\<not> ?thesis"
          with IH have "best_acc ls0 = 0" by simp
          with False have "a \<le> 0" by simp
          with \<open>\<not> (\<exists>x \<in> set (val_acc_history ls0). 0 < x)\<close> hist True show False by auto
        qed
        with IH obtain k lk where k: "k < n" "val_acc_history ls0 ! k = best_acc ls0"
          "\<forall>j<k. val_acc_history ls0 ! j < val_acc_history ls0 ! k"
          "train_loop fw mdl dl (int (Suc k)) is_inception = Inr lk"
          "best_model_wts ls0 = weights (model lk)"
          by auto
        have "val_acc_history ls ! k = best_acc ls"
          using k(1,2) hist len0 b by (simp add: nth_append)
        moreover have "\<forall>j<k. val_acc_history ls ! j < val_acc_history ls ! k"
          using k(1,3) hist len0 by (simp add: nth_append)
        moreover have "\<exists>lk. train_loop fw mdl dl (int (Suc k)) is_inception = Inr lk
                       \<and> best_model_wts ls = weights (model lk)"
          using k(4,5) w by simp
        ultimately have "\<exists>k<Suc n. val_acc_history ls ! k = best_acc ls
                  \<and> (\<forall>j<k. val_acc_history ls ! j < val_acc_history ls ! k)
                  \<and> (\<exists>lk. train_loop fw mdl dl (int (Suc k)) is_inception = Inr lk
                           \<and> best_model_wts ls = weights (model lk))"
          using k(1) less_Suc_eq by blast
        with True le nonneg show ?thesis by simp
      next
        case False
        then have "\<not> (\<exists>x \<in> set (val_acc_history ls0). 0 < x)" using hist by simp
        with IH have "best_acc ls0 = 0 \<and> best_model_wts ls0 = weights mdl" by simp
        with False le nonneg b w show ?thesis by simp
      qed
    qed
  qed
qed

lemma train_loop_returns:
  assumes "\<And>mode w r xs. is_pair (fst (forward fw mode w r xs)) = (is_inception \<and> mode)"
      and "one_prediction_per_input fw"
      and "\<And>phase e. e < n \<Longrightarrow> dataset_len (dl phase) \<noteq> 0 \<and> batches (dl phase) e \<noteq> []"
  shows "\<exists>ls. train_loop fw mdl dl (int n) is_inception = Inr ls"
  using assms(3)
proof (induction n)
  case 0
  then show ?case by (auto simp: train_loop_0)
next
  case (Suc n)
  from Suc obtain ls0 where l0: "train_loop fw mdl dl (int n) is_inception = Inr ls0"
    by (meson less_Suc_eq)
  have "\<And>phase. dataset_len (dl phase) \<noteq> 0 \<and> batches (dl phase) n \<noteq> []"
    using Suc.prems [of n] by blast
  from run_epoch_returns [of fw is_inception dl n ls0, OF assms(1,2) this] l0
  show ?case by (simp only: train_loop_Suc sum.case)
qed

lemma reshape_linear_returns:
  assumes "modules m0 p = Some l0" and "kind l0 = Linear"
  shows "reshape_linear (set_parameter_requires_grad m0 fe) p nc
           = Inr (setattr (set_parameter_requires_grad m0 fe) p (nn_Linear (in_features l0) nc))"
proof -
  have "get_in_features m0 p = Inr (in_features l0)"
    using assms by (simp add: get_in_features_def)
  then show ?thesis
    by (simp add: reshape_linear_def get_in_features_frozen)
qed

lemma reshape_linear_returns':
  assumes "modules m1 p = Some l0" and "kind l0 = Linear"
  shows "reshape_linear m1 p nc = Inr (setattr m1 p (nn_Linear (in_features l0) nc))"
  using assms by (simp add: reshape_linear_def get_in_features_def)

lemma has_final_layerD:
  assumes "has_final_layer m model_name" and "path \<in> set (reshaped model_name)"
  shows "\<exists>l0. modules m path = Some l0
           \<and> (if model_name = ''squeezenet'' then in_features l0 = 512 else kind l0 = Linear)"
proof -
  from assms have "case modules m path of None \<Rightarrow> False
     | Some l \<Rightarrow> if model_name = ''squeezenet'' then in_features l = 512 else kind l = Linear"
    unfolding has_final_layer_def by (rule bspec)
  then show ?thesis by (cases "modules m path") simp_all
qed

lemma initialize_model_returns:
  assumes "model_name \<in> set model_names"
      and "has_final_layer (pretrained z model_name up) model_name"
  shows "\<exists>m. initialize_model z py_exit model_name nc fe up
            = Inr (Some m, if model_name = ''inception'' then 299 else 224)"
  using assms(1)
proof (cases rule: model_name_cases)
  case 1
  with has_final_layerD [OF assms(2), of "''fc''"]
  obtain l0 where "modules (resnet18 z up) ''fc'' = Some l0" "kind l0 = Linear"
    by (simp add: reshaped_def pretrained_def) (elim exE conjE)
  from reshape_linear_returns [OF this] 1 show ?thesis
    by (simp add: initialize_model_resnet)
next
  case 2
  with has_final_layerD [OF assms(2), of "''classifier.6''"]
  obtain l0 where "modules (alexnet z up) ''classifier.6'' = Some l0" "kind l0 = Linear"
    by (simp add: reshaped_def pretrained_def) (elim exE conjE)
  from reshape_linear_returns [OF this] 2 show ?thesis
    by (simp add: initialize_model_alexnet)
next
  case 3
  with has_final_layerD [OF assms(2), of "''classifier.6''"]
  obtain l0 where "modules (vgg11_bn z up) ''classifier.6'' = Some l0" "kind l0 = Linear"
    by (simp add: reshaped_def pretrained_def) (elim exE conjE)
  from reshape_linear_returns [OF this] 3 show ?thesis
    by (simp add: initialize_model_vgg)
next
  case 4
  with has_final_layerD [OF assms(2), of "''classifier.1''"]
  obtain l0 where "modules (squeezenet1_0 z up) ''classifier.1'' = Some l0"
    by (simp add: reshaped_def pretrained_def) (elim exE conjE)
  with 4 show ?thesis
    by (simp add: initialize_model_squeezenet setitem_def modules_frozen)
next
  case 5
  with has_final_layerD [OF assms(2), of "''classifier''"]
  obtain l0 where "modules (densenet121 z up) ''classifier'' = Some l0" "kind l0 = Linear"
    by (simp add: reshaped_def pretrained_def) (elim exE conjE)
  from reshape_linear_returns [OF this] 5 show ?thesis
    by (simp add: initialize_model_densenet)
next
  case 6
  with has_final_layerD [OF assms(2), of "''AuxLogits.fc''"]
  obtain la where a: "modules (inception_v3 z up) ''AuxLogits.fc'' = Some la" "kind la = Linear"
    by (simp add: reshaped_def pretrained_def) (elim exE conjE)
  from 6 has_final_layerD [OF assms(2), of "''fc''"]
  obtain lp where p: "modules (inception_v3 z up) ''fc'' = Some lp" "kind lp = Linear"
    by (simp add: reshaped_def pretrained_def) (elim exE conjE)
  define m1 where "m1 = setattr (set_parameter_requires_grad (inception_v3 z up) fe)
                          ''AuxLogits.fc'' (nn_Linear (in_features la) nc)"
  have r1: "reshape_linear (set_parameter_requires_grad (inception_v3 z up) fe) ''AuxLogits.fc'' nc
              = Inr m1"
    unfolding m1_def by (rule reshape_linear_returns [OF a])
  obtain lp' where p': "modules m1 ''fc'' = Some lp'" "kind lp' = Linear"
    using p unfolding m1_def by (cases fe) (simp_all add: setattr_def modules_frozen)
  from reshape_linear_returns' [OF p'] r1 6 show ?thesis
    by (simp add: initialize_model_inception)
qed

lemma train_model_Inr:
  "train_model fw mdl dl n inc = Inr (mdl', hist) \<longleftrightarrow>
     (\<exists>ls. train_loop fw mdl dl n inc = Inr ls
          \<and> mdl' = (model ls)\<lparr>weights := best_model_wts ls,
                                calls := calls (model ls) @ [LoadStateDict]\<rparr>
          \<and> hist = val_acc_history ls)"
  unfolding train_model_def by (auto split: sum.splits)

text \<open>The equations that evaluate the runs of the example inputs.\<close>

lemmas example_run = example_framework_def example_model_def example_loaders_def
  train_model_def train_loop_def phase_body_def run_phase_def batch_step_def sum_eq_def
  Let_def upt_conv_Cons

lemmas example_adapt = initialize_model_resnet reshape_linear_def get_in_features_def
  set_parameter_requires_grad_def setattr_def example_zoo_def example_net_def nn_Linear_def

section \<open>The claims: the adapter\<close>

text \<open>
  Claim C3.  When \<open>initialize_model\<close> returns a model, look at any of its modules.  A
  module at a path the function assigned is one of the layers it created (a new
  \<open>nn.Linear\<close> to \<open>num_classes\<close> outputs, or for squeezenet the new \<open>nn.Conv2d\<close>); a
  module anywhere else is the module the torchvision constructor put there, with its
  flags cleared when \<open>feature_extract\<close> is true and untouched otherwise.  So with
  \<open>feature_extract\<close> the parameters that require gradients are exactly the weight and
  the bias of the new layer or layers, and no parameter that existed before does.
  Without \<open>feature_extract\<close>, and for a constructor that returns all its parameters with
  \<open>requires_grad=True\<close> as torchvision does, every parameter of the returned model
  requires gradients.
\<close>

theorem trainable_parameters:
  assumes "initialize_model z py_exit model_name num_classes feature_extract use_pretrained = Inr (Some m, sz)"
      and "modules m path = Some l"
  shows "(path \<in> set (reshaped model_name) \<longrightarrow>
            l = (if model_name = ''squeezenet'' then nn_Conv2d 512 num_classes (1, 1) (1, 1)
                 else nn_Linear (in_features l) num_classes))
       \<and> (path \<notin> set (reshaped model_name) \<longrightarrow>
            (\<exists>l0. modules (pretrained z model_name use_pretrained) path = Some l0
                 \<and> l = (if feature_extract
                        then l0\<lparr>requires_grad := map (\<lambda>_. False) (requires_grad l0)\<rparr>
                        else l0)))
       \<and> (feature_extract \<longrightarrow>
            (if path \<in> set (reshaped model_name) then requires_grad l = [True, True]
             else \<forall>b \<in> set (requires_grad l). \<not> b))
       \<and> (\<not> feature_extract \<and> all_trainable (pretrained z model_name use_pretrained) \<longrightarrow>
            (\<forall>b \<in> set (requires_grad l). b))"
proof (cases "path \<in> set (reshaped model_name)")
  case True
  from initialize_model_new [OF assms(1) True] assms(2)
  have "l = (if model_name = ''squeezenet'' then nn_Conv2d 512 num_classes (1, 1) (1, 1)
             else nn_Linear (in_features l) num_classes)
        \<and> requires_grad l = [True, True]"
    by (auto simp: nn_Linear_def nn_Conv2d_def)
  with True show ?thesis by simp
next
  case False
  from initialize_model_old [OF assms(1) False] assms(2)
  have old: "modules (set_parameter_requires_grad (pretrained z model_name use_pretrained)
                feature_extract) path = Some l" by simp
  then obtain l0 where l0: "modules (pretrained z model_name use_pretrained) path = Some l0"
    and l: "l = (if feature_extract
                 then l0\<lparr>requires_grad := map (\<lambda>_. False) (requires_grad l0)\<rparr> else l0)"
    by (auto simp: modules_frozen split: if_splits)
  have "\<forall>b \<in> set (requires_grad l). \<not> b" if feature_extract
    using that l by simp
  moreover have "\<forall>b \<in> set (requires_grad l). b"
    if "\<not> feature_extract" "all_trainable (pretrained z model_name use_pretrained)"
    using that l l0 unfolding all_trainable_def by auto
  ultimately show ?thesis using False l0 l by auto
qed

text \<open>
  The example zoo's resnet, for two classes: with \<open>feature_extract\<close> the new \<open>fc\<close> is
  trainable and the module in front of it is frozen; without it both are trainable.
\<close>

theorem trainable_parameters_witness:
  "(\<exists>m l l'. initialize_model example_zoo None ''resnet'' 2 True True = Inr (Some m, 224)
       \<and> modules m ''fc'' = Some l \<and> l = nn_Linear 512 2 \<and> requires_grad l = [True, True]
       \<and> modules m ''features.0'' = Some l' \<and> requires_grad l' = [False, False])
   \<and> all_trainable (pretrained example_zoo ''resnet'' True)
   \<and> (\<exists>m l l'. initialize_model example_zoo None ''resnet'' 2 False True = Inr (Some m, 224)
       \<and> modules m ''fc'' = Some l \<and> requires_grad l = [True, True]
       \<and> modules m ''features.0'' = Some l' \<and> requires_grad l' = [True, True])"
proof -
  obtain m l l' where e: "initialize_model example_zoo None ''resnet'' 2 True True = Inr (Some m, 224)"
    and f: "modules m ''fc'' = Some l" and g: "modules m ''features.0'' = Some l'"
    and l': "requires_grad l' = [False, False]" and i: "in_features l = 512"
    by (simp add: example_adapt)
  from trainable_parameters [OF e f] i
  have 1: "l = nn_Linear 512 2 \<and> requires_grad l = [True, True]"
    by (simp add: reshaped_def nn_Linear_def)
  from trainable_parameters [OF e g] have "\<forall>b \<in> set (requires_grad l'). \<not> b"
    by (auto simp: reshaped_def)
  have t: "all_trainable (pretrained example_zoo ''resnet'' True)"
    by (simp add: all_trainable_def pretrained_def example_zoo_def example_net_def nn_Linear_def)
  obtain m2 l2 l2' where e2: "initialize_model example_zoo None ''resnet'' 2 False True = Inr (Some m2, 224)"
    and f2: "modules m2 ''fc'' = Some l2" and g2: "modules m2 ''features.0'' = Some l2'"
    and r2: "length (requires_grad l2) = 2" "length (requires_grad l2') = 2"
    by (simp add: example_adapt)
  from trainable_parameters [OF e2 f2] trainable_parameters [OF e2 g2] t
  have "(\<forall>b \<in> set (requires_grad l2). b) \<and> (\<forall>b \<in> set (requires_grad l2'). b)"
    by auto
  with r2 have 2: "requires_grad l2 = [True, True] \<and> requires_grad l2' = [True, True]"
    by (cases "requires_grad l2"; cases "requires_grad l2'"; simp) (auto simp: length_Suc_conv)
  from e f g l' 1 t e2 f2 g2 2 show ?thesis by blast
qed

text \<open>
  Claim C4.  For a name that is not one of the six, here \<open>lenet\<close>, the function
  prints its message and calls \<open>exit()\<close>.  Where \<open>exit()\<close> returns, as it does in the
  kernel of a notebook, \<open>initialize_model\<close> raises nothing: it returns the pair
  \<open>(None, 0)\<close> it started with, for every zoo and every value of the other arguments.
  Where \<open>exit()\<close> raises \<open>SystemExit\<close>, the function ends with that exception.  In
  neither case does the result depend on the zoo, and in neither case is there a model.
\<close>

theorem unsupported_name_returns_none:
  "initialize_model z None ''lenet'' num_classes feature_extract use_pretrained = Inr (None, 0)
   \<and> initialize_model z (Some SystemExit) ''lenet'' num_classes feature_extract use_pretrained
       = Inl SystemExit"
proof -
  have "''lenet'' \<notin> set model_names" by (simp add: model_names_def)
  from initialize_model_exit [OF this] show ?thesis by simp
qed

text \<open>
  Claim C5.  For each of the six names, and a zoo whose network has its final layer
  where the notebook says it is, \<open>initialize_model\<close> returns a model in which every
  path it reshapes holds a new layer with \<open>num_classes\<close> outputs and the input width of
  the layer it replaces (for squeezenet the 512 channels the code writes, which is the
  width of the replaced convolution).  For inception both the auxiliary head
  \<open>AuxLogits.fc\<close> and the primary head \<open>fc\<close> are replaced.
\<close>

theorem final_layers_have_num_classes:
  assumes "model_name \<in> set model_names"
      and "has_final_layer (pretrained z model_name use_pretrained) model_name"
  shows "\<exists>m. initialize_model z py_exit model_name num_classes feature_extract use_pretrained
               = Inr (Some m, if model_name = ''inception'' then 299 else 224)
           \<and> (\<forall>path \<in> set (reshaped model_name). \<exists>l0 l.
                 modules (pretrained z model_name use_pretrained) path = Some l0
               \<and> modules m path = Some l
               \<and> l = (if model_name = ''squeezenet''
                      then nn_Conv2d 512 num_classes (1, 1) (1, 1)
                      else nn_Linear (in_features l0) num_classes)
               \<and> out_features l = num_classes
               \<and> in_features l = in_features l0)
           \<and> (model_name = ''inception'' \<longrightarrow>
                 (\<exists>a p. modules m ''AuxLogits.fc'' = Some a \<and> out_features a = num_classes
                      \<and> modules m ''fc'' = Some p \<and> out_features p = num_classes))"
proof -
  from initialize_model_returns [OF assms] obtain m where
    m: "initialize_model z py_exit model_name num_classes feature_extract use_pretrained
          = Inr (Some m, if model_name = ''inception'' then 299 else 224)" by blast
  have new: "\<exists>l0 l. modules (pretrained z model_name use_pretrained) path = Some l0
               \<and> modules m path = Some l
               \<and> l = (if model_name = ''squeezenet''
                      then nn_Conv2d 512 num_classes (1, 1) (1, 1)
                      else nn_Linear (in_features l0) num_classes)
               \<and> out_features l = num_classes
               \<and> in_features l = in_features l0"
    if p: "path \<in> set (reshaped model_name)" for path
  proof -
    from initialize_model_new [OF m p] obtain l0 where
      l0: "modules (pretrained z model_name use_pretrained) path = Some l0"
      and l: "modules m path =
               Some (if model_name = ''squeezenet'' then nn_Conv2d 512 num_classes (1, 1) (1, 1)
                     else nn_Linear (in_features l0) num_classes)"
      by blast
    from has_final_layerD [OF assms(2) p] l0
    have "model_name = ''squeezenet'' \<longrightarrow> in_features l0 = 512" by simp
    with l0 l show ?thesis by (simp add: nn_Linear_def nn_Conv2d_def)
  qed
  have "\<exists>a p. modules m ''AuxLogits.fc'' = Some a \<and> out_features a = num_classes
             \<and> modules m ''fc'' = Some p \<and> out_features p = num_classes"
    if i: "model_name = ''inception''"
  proof -
    from i have "''AuxLogits.fc'' \<in> set (reshaped model_name)" "''fc'' \<in> set (reshaped model_name)"
      by (simp_all add: reshaped_def)
    from new [OF this(1)] new [OF this(2)] show ?thesis by metis
  qed
  with m new show ?thesis by blast
qed

theorem final_layers_have_num_classes_witness:
  "''inception'' \<in> set model_names
   \<and> has_final_layer (pretrained example_zoo ''inception'' True) ''inception''
   \<and> (\<exists>m. initialize_model example_zoo None ''inception'' 2 True True = Inr (Some m, 299)
          \<and> modules m ''AuxLogits.fc'' = Some (nn_Linear 768 2)
          \<and> modules m ''fc'' = Some (nn_Linear 2048 2))"
proof -
  have n: "''inception'' \<in> set model_names" by (simp add: model_names_def)
  have h: "has_final_layer (pretrained example_zoo ''inception'' True) ''inception''"
    by (simp add: has_final_layer_def reshaped_def pretrained_def example_zoo_def
          example_net_def nn_Linear_def)
  have a: "modules (pretrained example_zoo ''inception'' True) ''AuxLogits.fc''
             = Some (nn_Linear 768 1000)"
    and p: "modules (pretrained example_zoo ''inception'' True) ''fc''
             = Some (nn_Linear 2048 1000)"
    by (simp_all add: pretrained_def example_zoo_def example_net_def)
  from final_layers_have_num_classes [OF n h, of None 2 True]
  have "\<exists>m. initialize_model example_zoo None ''inception'' 2 True True = Inr (Some m, 299)
          \<and> modules m ''AuxLogits.fc'' = Some (nn_Linear 768 2)
          \<and> modules m ''fc'' = Some (nn_Linear 2048 2)"
    by (simp add: reshaped_def a p) (auto simp: nn_Linear_def)
  with n h show ?thesis by simp
qed

text \<open>
  Claim C6.  Whenever \<open>initialize_model\<close> returns a model, the name is one of the six and
  the returned \<open>input_size\<close> is 299 for inception and 224 for each other name.  For each
  of the six names, whatever it returns is a model with that size.  And for a zoo whose
  network has its final layer in place, it does return, with that size.
\<close>

theorem input_size_by_name:
  "(initialize_model z py_exit model_name num_classes feature_extract use_pretrained = Inr (Some m, sz)
      \<longrightarrow> model_name \<in> set model_names
          \<and> sz = (if model_name = ''inception'' then 299 else 224))
   \<and> (model_name \<in> set model_names
        \<and> initialize_model z py_exit model_name num_classes feature_extract use_pretrained = Inr (mo, sz')
      \<longrightarrow> mo \<noteq> None \<and> sz' = (if model_name = ''inception'' then 299 else 224))
   \<and> (model_name \<in> set model_names
        \<and> has_final_layer (pretrained z model_name use_pretrained) model_name
      \<longrightarrow> (\<exists>m'. initialize_model z py_exit model_name num_classes feature_extract use_pretrained
                  = Inr (Some m', if model_name = ''inception'' then 299 else 224)))"
proof -
  have 1: "initialize_model z py_exit model_name num_classes feature_extract use_pretrained
             = Inr (Some m, sz)
      \<longrightarrow> model_name \<in> set model_names
          \<and> sz = (if model_name = ''inception'' then 299 else 224)"
  proof
    assume "initialize_model z py_exit model_name num_classes feature_extract use_pretrained
              = Inr (Some m, sz)"
    from initialize_model_names [OF this] initialize_model_size [OF this]
    show "model_name \<in> set model_names
          \<and> sz = (if model_name = ''inception'' then 299 else 224)"
      by (rule conjI)
  qed
  have 2: "model_name \<in> set model_names
        \<and> initialize_model z py_exit model_name num_classes feature_extract use_pretrained
            = Inr (mo, sz')
      \<longrightarrow> mo \<noteq> None \<and> sz' = (if model_name = ''inception'' then 299 else 224)"
  proof
    assume a: "model_name \<in> set model_names
        \<and> initialize_model z py_exit model_name num_classes feature_extract use_pretrained
            = Inr (mo, sz')"
    from a have n: "model_name \<in> set model_names" ..
    from a have r: "initialize_model z py_exit model_name num_classes feature_extract
                      use_pretrained = Inr (mo, sz')" ..
    from initialize_model_Some [OF n r] obtain m0 where m0: "mo = Some m0" ..
    from r have "initialize_model z py_exit model_name num_classes feature_extract
                   use_pretrained = Inr (Some m0, sz')"
      unfolding m0 .
    from initialize_model_size [OF this]
    have "sz' = (if model_name = ''inception'' then 299 else 224)" .
    moreover from m0 have "mo \<noteq> None" by simp
    ultimately show "mo \<noteq> None \<and> sz' = (if model_name = ''inception'' then 299 else 224)"
      by (rule conjI [rotated])
  qed
  have 3: "model_name \<in> set model_names
        \<and> has_final_layer (pretrained z model_name use_pretrained) model_name
      \<longrightarrow> (\<exists>m'. initialize_model z py_exit model_name num_classes feature_extract use_pretrained
                  = Inr (Some m', if model_name = ''inception'' then 299 else 224))"
  proof
    assume a: "model_name \<in> set model_names
        \<and> has_final_layer (pretrained z model_name use_pretrained) model_name"
    from a have n: "model_name \<in> set model_names" ..
    from a have h: "has_final_layer (pretrained z model_name use_pretrained) model_name" ..
    from initialize_model_returns [OF n h]
    show "\<exists>m'. initialize_model z py_exit model_name num_classes feature_extract use_pretrained
                  = Inr (Some m', if model_name = ''inception'' then 299 else 224)" .
  qed
  from 1 2 3 show ?thesis by (intro conjI)
qed


theorem input_size_by_name_witness:
  "''inception'' \<in> set model_names
   \<and> has_final_layer (pretrained example_zoo ''inception'' True) ''inception''
   \<and> (\<exists>m. initialize_model example_zoo None ''inception'' 2 True True = Inr (Some m, 299))
   \<and> ''densenet'' \<in> set model_names
   \<and> has_final_layer (pretrained example_zoo ''densenet'' True) ''densenet''
   \<and> (\<exists>m. initialize_model example_zoo None ''densenet'' 2 True True = Inr (Some m, 224))"
proof -
  have n: "''inception'' \<in> set model_names" "''densenet'' \<in> set model_names"
    by (simp_all add: model_names_def)
  have h: "has_final_layer (pretrained example_zoo ''inception'' True) ''inception''"
    "has_final_layer (pretrained example_zoo ''densenet'' True) ''densenet''"
    by (simp_all add: has_final_layer_def reshaped_def pretrained_def example_zoo_def
          example_net_def nn_Linear_def)
  from input_size_by_name [of example_zoo None "''inception''" 2 True True] n(1) h(1)
  have "\<exists>m. initialize_model example_zoo None ''inception'' 2 True True = Inr (Some m, 299)"
    by simp
  moreover
  from input_size_by_name [of example_zoo None "''densenet''" 2 True True] n(2) h(2)
  have "\<exists>m. initialize_model example_zoo None ''densenet'' 2 True True = Inr (Some m, 224)"
    by simp
  ultimately show ?thesis using n h by simp
qed

section \<open>The claims: the training loop\<close>




text \<open>
  Claim C2.  In the training phase, a batch step that returns has this loss: with
  \<open>is_inception\<close> the model returned its two outputs and the loss is the loss function
  of the primary output plus 0.4 times the loss function of the auxiliary output;
  without it the model returned one output and the loss is the loss function of that
  output.  This loss is the one \<open>backward\<close> is called on, before the optimizer's step.
  Conversely, whenever the model returns the outputs the flag expects, the step returns
  with that loss.
\<close>

theorem train_batch_loss:
  "(batch_step fw is_inception Train inputs labels st = Inr (st', loss, preds) \<longrightarrow>
      (if is_inception
       then \<exists>outputs aux_outputs w r.
              forward fw (training st) (weights st) (zero_grad fw (optim st)) inputs
                = (InceptionOutputs outputs aux_outputs, w, r)
            \<and> loss = criterion fw outputs labels + 0.4 * criterion fw aux_outputs labels
       else \<exists>outputs w r.
              forward fw (training st) (weights st) (zero_grad fw (optim st)) inputs
                = (Tensor outputs, w, r)
            \<and> loss = criterion fw outputs labels)
      \<and> (\<exists>cs. calls st' = calls st @ cs @ [Backward loss, OptimizerStep]))
   \<and> (forward fw (training st) (weights st) (zero_grad fw (optim st)) inputs
         = (InceptionOutputs outputs aux_outputs, w, r) \<longrightarrow>
       (\<exists>st1 preds1. batch_step fw True Train inputs labels st
          = Inr (st1, criterion fw outputs labels + 0.4 * criterion fw aux_outputs labels, preds1)))
   \<and> (forward fw (training st) (weights st) (zero_grad fw (optim st)) inputs
         = (Tensor outputs, w, r) \<longrightarrow>
       (\<exists>st1 preds1. batch_step fw False Train inputs labels st
          = Inr (st1, criterion fw outputs labels, preds1)))"
proof (intro conjI impI)
  assume a: "batch_step fw is_inception Train inputs labels st = Inr (st', loss, preds)"
  from a show "if is_inception
       then \<exists>outputs aux_outputs w r.
              forward fw (training st) (weights st) (zero_grad fw (optim st)) inputs
                = (InceptionOutputs outputs aux_outputs, w, r)
            \<and> loss = criterion fw outputs labels + 0.4 * criterion fw aux_outputs labels
       else \<exists>outputs w r.
              forward fw (training st) (weights st) (zero_grad fw (optim st)) inputs
                = (Tensor outputs, w, r)
            \<and> loss = criterion fw outputs labels"
    by (cases rule: batch_step_cases) simp_all
  from a show "\<exists>cs. calls st' = calls st @ cs @ [Backward loss, OptimizerStep]"
    by (cases rule: batch_step_cases) simp_all
next
  assume "forward fw (training st) (weights st) (zero_grad fw (optim st)) inputs
            = (InceptionOutputs outputs aux_outputs, w, r)"
  then show "\<exists>st1 preds1. batch_step fw True Train inputs labels st
          = Inr (st1, criterion fw outputs labels + 0.4 * criterion fw aux_outputs labels, preds1)"
    by (simp add: batch_step_def Let_def split: prod.splits)
next
  assume "forward fw (training st) (weights st) (zero_grad fw (optim st)) inputs
            = (Tensor outputs, w, r)"
  then show "\<exists>st1 preds1. batch_step fw False Train inputs labels st
          = Inr (st1, criterion fw outputs labels, preds1)"
    by (simp add: batch_step_def Let_def split: prod.splits)
qed

text \<open>
  A batch of two samples, both misclassified by both heads: each loss is 2, and the
  batch loss is 2 + 0.4 * 2 with the auxiliary head and 2 without.
\<close>

theorem train_batch_loss_witness:
  "batch_step (example_framework True) True Train [0, 1] [1, 1] example_model
     = Inr (\<lparr>weights = 1, training = True, optim = 1,
             calls = [ZeroGrad, Forward, Criterion Primary, Criterion Auxiliary, TorchMax,
                      Backward (14 / 5), OptimizerStep]\<rparr>, 14 / 5, [0, 0])
   \<and> forward (example_framework True) (training example_model) (weights example_model)
       (zero_grad (example_framework True) (optim example_model)) [0, 1]
     = (InceptionOutputs [0, 0] [0, 0], 0, 0)
   \<and> 14 / 5 = criterion (example_framework True) [0, 0] [1, 1]
              + 0.4 * criterion (example_framework True) [0, 0] [1, 1]
   \<and> batch_step (example_framework False) False Train [0, 1] [1, 1] example_model
     = Inr (\<lparr>weights = 1, training = True, optim = 1,
             calls = [ZeroGrad, Forward, Criterion Primary, TorchMax,
                      Backward 2, OptimizerStep]\<rparr>, 2, [0, 0])
   \<and> forward (example_framework False) (training example_model) (weights example_model)
       (zero_grad (example_framework False) (optim example_model)) [0, 1]
     = (Tensor [0, 0], 0, 0)
   \<and> 2 = criterion (example_framework False) [0, 0] [1, 1]"
proof -
  have a: "forward (example_framework True) (training example_model) (weights example_model)
       (zero_grad (example_framework True) (optim example_model)) [0, 1]
     = (InceptionOutputs [0, 0] [0, 0], 0, 0)"
    by (simp add: example_framework_def example_model_def)
  have b: "forward (example_framework False) (training example_model) (weights example_model)
       (zero_grad (example_framework False) (optim example_model)) [0, 1]
     = (Tensor [0, 0], 0, 0)"
    by (simp add: example_framework_def example_model_def)
  have s: "batch_step (example_framework True) True Train [0, 1] [1, 1] example_model
     = Inr (\<lparr>weights = 1, training = True, optim = 1,
             calls = [ZeroGrad, Forward, Criterion Primary, Criterion Auxiliary, TorchMax,
                      Backward (14 / 5), OptimizerStep]\<rparr>, 14 / 5, [0, 0])"
    by (simp add: example_run)
  have t: "batch_step (example_framework False) False Train [0, 1] [1, 1] example_model
     = Inr (\<lparr>weights = 1, training = True, optim = 1,
             calls = [ZeroGrad, Forward, Criterion Primary, TorchMax,
                      Backward 2, OptimizerStep]\<rparr>, 2, [0, 0])"
    by (simp add: example_run)
  from train_batch_loss [of "example_framework True" True "[0, 1]" "[1, 1]" example_model
         _ "14 / 5" "[0, 0]"] s a
  have "14 / 5 = criterion (example_framework True) [0, 0] [1, 1]
              + 0.4 * criterion (example_framework True) [0, 0] [1, 1]"
    by simp
  moreover
  from train_batch_loss [of "example_framework False" False "[0, 1]" "[1, 1]" example_model
         _ 2 "[0, 0]"] t b
  have "2 = criterion (example_framework False) [0, 0] [1, 1]"
    by simp
  ultimately show ?thesis using a b s t by simp
qed

text \<open>
  Claim C7.  A validation phase that returns has made, after \<open>model.eval()\<close>, only
  the calls \<open>optimizer.zero_grad()\<close>, \<open>model(inputs)\<close>, \<open>criterion(outputs, labels)\<close> on
  the primary output and \<open>torch.max(outputs, 1)\<close>: no \<open>loss.backward()\<close>, no
  \<open>optimizer.step()\<close> and no loss of an auxiliary output, whatever \<open>is_inception\<close> is.
  Each of its batch steps takes the single output of the model, computes the loss and the
  predictions from it, and leaves the state as the forward pass left it.
\<close>

theorem val_phase_only_reads:
  "(run_phase fw is_inception dataloaders epoch Val st = Inr (st', epoch_loss, epoch_acc) \<longrightarrow>
      (\<exists>cs. calls st' = calls st @ ModelEval # cs
           \<and> set cs \<subseteq> {ZeroGrad, Forward, Criterion Primary, TorchMax}
           \<and> OptimizerStep \<notin> set cs \<and> Criterion Auxiliary \<notin> set cs
           \<and> (\<forall>l. Backward l \<notin> set cs)))
   \<and> (batch_step fw is_inception Val inputs labels st = Inr (st1, loss, preds) \<longrightarrow>
      (\<exists>outputs w r.
          forward fw (training st) (weights st) (zero_grad fw (optim st)) inputs
            = (Tensor outputs, w, r)
        \<and> loss = criterion fw outputs labels
        \<and> preds = torch_max fw outputs
        \<and> st1 = st\<lparr>weights := w, optim := r,
                    calls := calls st @ [ZeroGrad, Forward, Criterion Primary, TorchMax]\<rparr>))"
proof (intro conjI impI)
  assume "run_phase fw is_inception dataloaders epoch Val st = Inr (st', epoch_loss, epoch_acc)"
  from run_phase_val_calls [OF this] obtain cs where
    cs: "calls st' = calls st @ ModelEval # cs"
        "set cs \<subseteq> {ZeroGrad, Forward, Criterion Primary, TorchMax}" by blast
  from cs(2) have "OptimizerStep \<notin> set cs \<and> Criterion Auxiliary \<notin> set cs
                  \<and> (\<forall>l. Backward l \<notin> set cs)" by auto
  with cs show "\<exists>cs. calls st' = calls st @ ModelEval # cs
           \<and> set cs \<subseteq> {ZeroGrad, Forward, Criterion Primary, TorchMax}
           \<and> OptimizerStep \<notin> set cs \<and> Criterion Auxiliary \<notin> set cs
           \<and> (\<forall>l. Backward l \<notin> set cs)" by blast
next
  assume "batch_step fw is_inception Val inputs labels st = Inr (st1, loss, preds)"
  then show "\<exists>outputs w r.
          forward fw (training st) (weights st) (zero_grad fw (optim st)) inputs
            = (Tensor outputs, w, r)
        \<and> loss = criterion fw outputs labels
        \<and> preds = torch_max fw outputs
        \<and> st1 = st\<lparr>weights := w, optim := r,
                    calls := calls st @ [ZeroGrad, Forward, Criterion Primary, TorchMax]\<rparr>"
    by (cases rule: batch_step_cases) simp_all
qed

text \<open>
  The validation phase of the first epoch with \<open>is_inception\<close> set, on two batches of
  one sample.
\<close>

theorem val_phase_only_reads_witness:
  "run_phase (example_framework True) True (example_loaders [1, 3]) 0 Val example_model
     = Inr (example_model\<lparr>training := False,
              calls := [ModelEval, ZeroGrad, Forward, Criterion Primary, TorchMax,
                        ZeroGrad, Forward, Criterion Primary, TorchMax]\<rparr>, 1, 0)
   \<and> batch_step (example_framework True) True Val [0] [1] (example_model\<lparr>training := False\<rparr>)
       = Inr (example_model\<lparr>training := False,
                calls := [ZeroGrad, Forward, Criterion Primary, TorchMax]\<rparr>, 1, [0])
   \<and> OptimizerStep \<notin> set [ZeroGrad, Forward, Criterion Primary, TorchMax,
                            ZeroGrad, Forward, Criterion Primary, TorchMax]"
proof -
  have a: "run_phase (example_framework True) True (example_loaders [1, 3]) 0 Val example_model
     = Inr (example_model\<lparr>training := False,
              calls := [ModelEval, ZeroGrad, Forward, Criterion Primary, TorchMax,
                        ZeroGrad, Forward, Criterion Primary, TorchMax]\<rparr>, 1, 0)"
    by (simp add: example_run)
  have b: "batch_step (example_framework True) True Val [0] [1] (example_model\<lparr>training := False\<rparr>)
       = Inr (example_model\<lparr>training := False,
                calls := [ZeroGrad, Forward, Criterion Primary, TorchMax]\<rparr>, 1, [0])"
    by (simp add: example_run)
  from val_phase_only_reads [of "example_framework True" True "example_loaders [1, 3]" 0
         example_model _ 1 0 "[0]" "[1]" _ 1 "[0]"] a b
  show ?thesis by (simp add: example_model_def)
qed

text \<open>
  Claim C8.  When \<open>train_model\<close> returns, its loop has run and ended, the returned
  history has one entry for each of the \<open>num_epochs\<close> epochs (none for a negative
  count), and the returned model is the loop's model with the best snapshot loaded.  The
  calls the run has made are, epoch after epoch, \<open>model.train()\<close> and the calls of a
  training step for each batch of the training loader (zero the gradients, forward
  pass, the loss or the two losses, the predictions, backward pass, step of the
  optimizer), then \<open>model.eval()\<close> and the calls of a validation step for each batch of
  the validation loader, and after the last epoch \<open>load_state_dict\<close>: every epoch is a
  full training phase followed by a full validation phase, and nothing but the count of
  epochs ends the loop.  And \<open>train_model\<close> does return when no collaborator fails: when
  the model returns its pair of outputs exactly in training mode with \<open>is_inception\<close>
  and one prediction for each input, and in every epoch both data sets are non-empty
  and both loaders yield a batch.
\<close>

theorem train_model_runs_all_epochs:
  "(train_model fw mdl dataloaders num_epochs is_inception = Inr (mdl', hist) \<longrightarrow>
      (\<exists>ls. train_loop fw mdl dataloaders num_epochs is_inception = Inr ls
           \<and> mdl' = (model ls)\<lparr>weights := best_model_wts ls,
                                 calls := calls (model ls) @ [LoadStateDict]\<rparr>
           \<and> hist = val_acc_history ls)
      \<and> length hist = nat num_epochs
      \<and> phases_of (calls mdl')
          = phases_of (calls mdl) @ concat (replicate (nat num_epochs) [Train, Val])
      \<and> map erase_loss (calls mdl')
          = map erase_loss (calls mdl)
            @ concat (map (epoch_calls is_inception dataloaders) [0 ..< nat num_epochs])
            @ [LoadStateDict])
   \<and> ((\<forall>mode w r xs. is_pair (fst (forward fw mode w r xs)) = (is_inception \<and> mode))
        \<and> one_prediction_per_input fw
        \<and> (\<forall>phase. \<forall>e < nat num_epochs.
              dataset_len (dataloaders phase) \<noteq> 0 \<and> batches (dataloaders phase) e \<noteq> [])
      \<longrightarrow> (\<exists>res. train_model fw mdl dataloaders num_epochs is_inception = Inr res))"
proof (intro conjI impI)
  assume a: "train_model fw mdl dataloaders num_epochs is_inception = Inr (mdl', hist)"
  then obtain ls where ls: "train_loop fw mdl dataloaders num_epochs is_inception = Inr ls"
    and m: "mdl' = (model ls)\<lparr>weights := best_model_wts ls,
                                 calls := calls (model ls) @ [LoadStateDict]\<rparr>"
    and h: "hist = val_acc_history ls"
    unfolding train_model_Inr by blast
  from ls m h show "\<exists>ls. train_loop fw mdl dataloaders num_epochs is_inception = Inr ls
           \<and> mdl' = (model ls)\<lparr>weights := best_model_wts ls,
                                 calls := calls (model ls) @ [LoadStateDict]\<rparr>
           \<and> hist = val_acc_history ls" by blast
  from ls have l: "train_loop fw mdl dataloaders (int (nat num_epochs)) is_inception = Inr ls"
    by (simp only: train_loop_nat [symmetric])
  from train_loop_history [OF l] h show "length hist = nat num_epochs" by simp
  from train_loop_history [OF l] m
  show "phases_of (calls mdl')
          = phases_of (calls mdl) @ concat (replicate (nat num_epochs) [Train, Val])"
    by (simp add: phases_of_append)
  show "map erase_loss (calls mdl')
          = map erase_loss (calls mdl)
            @ concat (map (epoch_calls is_inception dataloaders) [0 ..< nat num_epochs])
            @ [LoadStateDict]"
  proof -
    have step: "map erase_loss (calls s') = map erase_loss (calls s) @ step_calls is_inception ph"
      if "batch_step fw is_inception ph xs ys s = Inr (s', lo, ps)" for ph xs ys s s' lo ps
    proof -
      obtain out w r where
        "forward fw (training s) (weights s) (zero_grad fw (optim s)) xs = (out, w, r)"
        by (metis prod_cases3)
      with that show ?thesis
        by (cases out; cases ph)
           (auto simp: batch_step_def step_calls_def Let_def split: if_splits prod.splits)
    qed
    have many: "map erase_loss (calls s')
          = map erase_loss (calls s) @ concat (replicate (length bs) (step_calls is_inception ph))"
      if "run_batches fw is_inception ph bs (s, lo, c) = Inr (s', lo', c')"
      for ph bs s lo c s' lo' c'
      using that
    proof (induction bs arbitrary: s lo c)
      case Nil
      then show ?case by simp
    next
      case (Cons b bs)
      from Cons.prems obtain s1 lo1 ps k where
        "batch_step fw is_inception ph (map fst b) (map snd b) s = Inr (s1, lo1, ps)"
        "run_batches fw is_inception ph bs (s1, lo + lo1 * real (length b), c + k)
           = Inr (s', lo', c')"
        by (auto simp: Let_def split: sum.splits)
      from step [OF this(1)] Cons.IH [OF this(2)] show ?case by simp
    qed
    have one_phase: "map erase_loss (calls s')
          = map erase_loss (calls s) @ phase_calls is_inception dataloaders e ph"
      if "run_phase fw is_inception dataloaders e ph s = Inr (s', lo, ac)" for e ph s s' lo ac
    proof -
      from that obtain lo' c' where
        "run_batches fw is_inception ph (batches (dataloaders ph) e)
           (if ph = Train then s\<lparr>training := True, calls := calls s @ [ModelTrain]\<rparr>
            else s\<lparr>training := False, calls := calls s @ [ModelEval]\<rparr>, 0, 0)
         = Inr (s', lo', c')"
        unfolding run_phase_def by (auto simp: Let_def split: sum.splits if_splits)
      from many [OF this] show ?thesis
        by (simp add: phase_calls_def)
    qed
    have one_epoch: "map erase_loss (calls (model k'))
          = map erase_loss (calls (model k)) @ epoch_calls is_inception dataloaders e"
      if "run_phases fw is_inception dataloaders e [Train, Val] k = Inr k'" for e k k'
    proof -
      from that obtain s1 lo1 ac1 s2 lo2 ac2 where
        "run_phase fw is_inception dataloaders e Train (model k) = Inr (s1, lo1, ac1)"
        "run_phase fw is_inception dataloaders e Val s1 = Inr (s2, lo2, ac2)"
        "model k' = s2"
        unfolding phase_body_def run_phases.simps
        by (auto simp: Let_def split: sum.splits if_splits)
      from one_phase [OF this(1)] one_phase [OF this(2)] this(3) show ?thesis
        by (simp add: epoch_calls_def)
    qed
    have whole: "map erase_loss (calls (model k))
          = map erase_loss (calls mdl)
            @ concat (map (epoch_calls is_inception dataloaders) [0 ..< n])"
      if "train_loop fw mdl dataloaders (int n) is_inception = Inr k" for n k
      using that
    proof (induction n arbitrary: k)
      case 0
      then show ?case by (auto simp: train_loop_def)
    next
      case (Suc n)
      from Suc.prems obtain k0 where
        "train_loop fw mdl dataloaders (int n) is_inception = Inr k0"
        "run_phases fw is_inception dataloaders n [Train, Val] k0 = Inr k"
        by (rule train_loop_SucE)
      from Suc.IH [OF this(1)] one_epoch [OF this(2)] show ?case by simp
    qed
    from whole [OF l] m show ?thesis by simp
  qed
next
  assume a: "(\<forall>mode w r xs. is_pair (fst (forward fw mode w r xs)) = (is_inception \<and> mode))
        \<and> one_prediction_per_input fw
        \<and> (\<forall>phase. \<forall>e < nat num_epochs.
              dataset_len (dataloaders phase) \<noteq> 0 \<and> batches (dataloaders phase) e \<noteq> [])"
  then have "\<exists>ls. train_loop fw mdl dataloaders (int (nat num_epochs)) is_inception = Inr ls"
    by (intro train_loop_returns) simp_all
  then obtain ls where "train_loop fw mdl dataloaders num_epochs is_inception = Inr ls"
    by (simp only: train_loop_nat [symmetric]) blast
  then show "\<exists>res. train_model fw mdl dataloaders num_epochs is_inception = Inr res"
    by (simp add: train_model_def)
qed

text \<open>
  Two epochs with the auxiliary head: in each epoch one training batch and two
  validation batches.
\<close>

theorem train_model_runs_all_epochs_witness:
  "(\<forall>mode w r xs. is_pair (fst (forward (example_framework True) mode w r xs)) = (True \<and> mode))
   \<and> one_prediction_per_input (example_framework True)
   \<and> (\<exists>mdl' hist.
          (\<forall>phase. \<forall>e < nat 2. dataset_len (example_loaders [1, 3] phase) \<noteq> 0
                                 \<and> batches (example_loaders [1, 3] phase) e \<noteq> [])
        \<and> train_model (example_framework True) example_model (example_loaders [1, 3]) 2 True
             = Inr (mdl', hist)
        \<and> hist = [1 / 2, 0]
        \<and> mdl' = \<lparr>weights = 1, training = False, optim = 2,
             calls = [ModelTrain, ZeroGrad, Forward, Criterion Primary, Criterion Auxiliary,
                      TorchMax, Backward (14 / 5), OptimizerStep,
                      ModelEval, ZeroGrad, Forward, Criterion Primary, TorchMax,
                      ZeroGrad, Forward, Criterion Primary, TorchMax,
                      ModelTrain, ZeroGrad, Forward, Criterion Primary, Criterion Auxiliary,
                      TorchMax, Backward (4 / 5), OptimizerStep,
                      ModelEval, ZeroGrad, Forward, Criterion Primary, TorchMax,
                      ZeroGrad, Forward, Criterion Primary, TorchMax,
                      LoadStateDict]\<rparr>
        \<and> length hist = nat 2
        \<and> phases_of (calls mdl')
            = phases_of (calls example_model) @ concat (replicate (nat 2) [Train, Val])
        \<and> map erase_loss (calls mdl')
            = map erase_loss (calls example_model)
              @ concat (map (epoch_calls True (example_loaders [1, 3])) [0 ..< nat 2])
              @ [LoadStateDict])"
proof -
  have a: "\<forall>mode w r xs.
      is_pair (fst (forward (example_framework True) mode w r xs)) = (True \<and> mode)"
    by (simp add: example_framework_def)
  have o: "one_prediction_per_input (example_framework True)"
    by (simp add: one_prediction_per_input_def example_framework_def)
  have b: "\<forall>phase. \<forall>e < nat 2. dataset_len (example_loaders [1, 3] phase) \<noteq> 0
                          \<and> batches (example_loaders [1, 3] phase) e \<noteq> []"
    by (simp add: example_loaders_def split: phase.splits)
  note main = train_model_runs_all_epochs
    [of "example_framework True" example_model "example_loaders [1, 3]" 2 True]
  from a o b have "(\<forall>mode w r xs.
        is_pair (fst (forward (example_framework True) mode w r xs)) = (True \<and> mode))
      \<and> one_prediction_per_input (example_framework True)
      \<and> (\<forall>phase. \<forall>e < nat 2. dataset_len (example_loaders [1, 3] phase) \<noteq> 0
                          \<and> batches (example_loaders [1, 3] phase) e \<noteq> [])"
    by (intro conjI)
  from main [THEN conjunct2, THEN mp, OF this]
  have "\<exists>res. train_model (example_framework True) example_model (example_loaders [1, 3]) 2 True
               = Inr res" .
  define mdl' :: "(nat, nat) world" where "mdl' = \<lparr>weights = 1, training = False, optim = 2,
             calls = [ModelTrain, ZeroGrad, Forward, Criterion Primary, Criterion Auxiliary,
                      TorchMax, Backward (14 / 5), OptimizerStep,
                      ModelEval, ZeroGrad, Forward, Criterion Primary, TorchMax,
                      ZeroGrad, Forward, Criterion Primary, TorchMax,
                      ModelTrain, ZeroGrad, Forward, Criterion Primary, Criterion Auxiliary,
                      TorchMax, Backward (4 / 5), OptimizerStep,
                      ModelEval, ZeroGrad, Forward, Criterion Primary, TorchMax,
                      ZeroGrad, Forward, Criterion Primary, TorchMax,
                      LoadStateDict]\<rparr>"
  have r: "train_model (example_framework True) example_model (example_loaders [1, 3]) 2 True
             = Inr (mdl', [1 / 2, 0])"
    unfolding mdl'_def by (simp add: example_run)
  note props = main [of mdl' "[1 / 2, 0]", THEN conjunct1, THEN mp, OF r]
  from props have len: "length [1 / 2, 0 :: real] = nat 2" by (elim conjE)
  from props have ph: "phases_of (calls mdl')
           = phases_of (calls example_model) @ concat (replicate (nat 2) [Train, Val])"
    by (elim conjE)
  from props have tr: "map erase_loss (calls mdl')
          = map erase_loss (calls example_model)
            @ concat (map (epoch_calls True (example_loaders [1, 3])) [0 ..< nat 2])
            @ [LoadStateDict]"
    by (elim conjE)
  from b r len ph tr mdl'_def show ?thesis
    using a o by (intro conjI exI [of _ mdl'] exI [of _ "[1 / 2, 0]"]) simp_all
qed

text \<open>
  Claim C9.  The loop starts with \<open>best_acc = 0\<close> and with the weights of the model as
  \<open>best_model_wts\<close>.  A phase leaves both unchanged, unless it is a validation phase
  whose accuracy is strictly greater than \<open>best_acc\<close>, and then it stores that accuracy
  and the weights of the model.  So with \<open>num_epochs \<le> 0\<close> the function returns the
  model as it was, with an empty history; and whenever it returns a history without an
  entry greater than 0, the returned model has the weights it had before training.
\<close>

theorem no_improvement_keeps_initial_weights:
  "train_loop fw mdl dataloaders 0 is_inception
     = Inr \<lparr>model = mdl, best_model_wts = weights mdl, best_acc = 0, val_acc_history = []\<rparr>
   \<and> (phase_body fw is_inception dataloaders epoch phase ls = Inr ls' \<longrightarrow>
        (best_acc ls' = best_acc ls \<and> best_model_wts ls' = best_model_wts ls)
      \<or> (phase = Val \<and> best_acc ls < best_acc ls' \<and> best_acc ls' = last (val_acc_history ls')
          \<and> best_model_wts ls' = weights (model ls')))
   \<and> (num_epochs \<le> 0 \<longrightarrow>
        train_model fw mdl dataloaders num_epochs is_inception
          = Inr (mdl\<lparr>calls := calls mdl @ [LoadStateDict]\<rparr>, []))
   \<and> (train_model fw mdl dataloaders num_epochs is_inception = Inr (mdl', hist)
        \<and> (\<forall>a \<in> set hist. \<not> 0 < a)
      \<longrightarrow> weights mdl' = weights mdl)"
proof (intro conjI impI)
  show "train_loop fw mdl dataloaders 0 is_inception
     = Inr \<lparr>model = mdl, best_model_wts = weights mdl, best_acc = 0, val_acc_history = []\<rparr>"
    by (rule train_loop_0)
next
  assume "phase_body fw is_inception dataloaders epoch phase ls = Inr ls'"
  then show "(best_acc ls' = best_acc ls \<and> best_model_wts ls' = best_model_wts ls)
      \<or> (phase = Val \<and> best_acc ls < best_acc ls' \<and> best_acc ls' = last (val_acc_history ls')
          \<and> best_model_wts ls' = weights (model ls'))"
    unfolding phase_body_def by (auto simp: Let_def split: sum.splits if_splits)
next
  assume "num_epochs \<le> 0"
  then show "train_model fw mdl dataloaders num_epochs is_inception
          = Inr (mdl\<lparr>calls := calls mdl @ [LoadStateDict]\<rparr>, [])"
    by (simp add: train_model_def train_loop_def)
next
  assume a: "train_model fw mdl dataloaders num_epochs is_inception = Inr (mdl', hist)
        \<and> (\<forall>a \<in> set hist. \<not> 0 < a)"
  then obtain ls where ls: "train_loop fw mdl dataloaders num_epochs is_inception = Inr ls"
    and m: "mdl' = (model ls)\<lparr>weights := best_model_wts ls,
                                 calls := calls (model ls) @ [LoadStateDict]\<rparr>"
    and h: "hist = val_acc_history ls"
    unfolding train_model_Inr by blast
  from ls have l: "train_loop fw mdl dataloaders (int (nat num_epochs)) is_inception = Inr ls"
    by (simp only: train_loop_nat [symmetric])
  from train_loop_best [OF l] a h have "best_model_wts ls = weights mdl" by blast
  with m show "weights mdl' = weights mdl" by simp
qed

text \<open>
  Two epochs with the validation accuracy 0: the model ends the loop with the weights 2
  and is returned with the weights 0 it started with.  A count of -1: no epoch.  A
  validation phase with the accuracy 1: the snapshot is replaced.
\<close>

theorem no_improvement_keeps_initial_weights_witness:
  "(\<exists>ls mdl'. train_loop (example_framework False) example_model (example_loaders [0, 0]) 2 False
               = Inr ls
          \<and> train_model (example_framework False) example_model (example_loaders [0, 0]) 2 False
               = Inr (mdl', [0, 0])
          \<and> (\<forall>a \<in> set [0, 0 :: real]. \<not> 0 < a)
          \<and> weights (model ls) = 2 \<and> weights mdl' = 0 \<and> weights example_model = 0)
   \<and> (-1 :: int) \<le> 0
   \<and> train_model (example_framework False) example_model (example_loaders [0, 0]) (-1) False
        = Inr (example_model\<lparr>calls := calls example_model @ [LoadStateDict]\<rparr>, [])
   \<and> (\<exists>ls'. phase_body (example_framework False) False (example_loaders [0, 0]) 0 Val
               \<lparr>model = example_model, best_model_wts = 7, best_acc = 0, val_acc_history = []\<rparr>
             = Inr ls'
          \<and> best_acc ls' = 1 \<and> best_model_wts ls' = 0 \<and> weights (model ls') = 0)"
proof -
  obtain ls where ls:
    "train_loop (example_framework False) example_model (example_loaders [0, 0]) 2 False = Inr ls"
    and h: "val_acc_history ls = [0, 0]" and w: "weights (model ls) = 2"
    by (simp add: example_run)
  then obtain mdl' where m:
    "train_model (example_framework False) example_model (example_loaders [0, 0]) 2 False
       = Inr (mdl', [0, 0])"
    by (simp add: train_model_def)
  note main = no_improvement_keeps_initial_weights
    [of "example_framework False" example_model "example_loaders [0, 0]" False]
  have z: "\<forall>a \<in> set [0, 0 :: real]. \<not> 0 < a" by simp
  from main [of _ _ _ _ 2 mdl' "[0, 0]"] m z have "weights mdl' = weights example_model"
    by blast
  moreover have "weights example_model = 0" by (simp add: example_model_def)
  moreover from main [of _ _ _ _ "-1"]
  have "train_model (example_framework False) example_model (example_loaders [0, 0]) (-1) False
        = Inr (example_model\<lparr>calls := calls example_model @ [LoadStateDict]\<rparr>, [])"
    by simp
  moreover
  obtain ls' where p: "phase_body (example_framework False) False (example_loaders [0, 0]) 0 Val
               \<lparr>model = example_model, best_model_wts = 7, best_acc = 0, val_acc_history = []\<rparr>
             = Inr ls'"
    and q: "best_acc ls' = 1" "weights (model ls') = 0"
    by (simp add: example_run)
  from main [of 0 Val "\<lparr>model = example_model, best_model_wts = 7, best_acc = 0,
                        val_acc_history = []\<rparr>" ls'] p q
  have "best_acc ls' = 1 \<and> best_model_wts ls' = 0" by auto
  ultimately show ?thesis using ls m z w p q by auto
qed

text \<open>
  Claim C10.  When \<open>train_model\<close> returns, the returned model is the caller's model as
  the loop left it with \<open>best_model_wts\<close> loaded, and the returned history is the loop's:
  the weights are those of the best snapshot; they are the weights of the end of the
  last epoch when that epoch is the best one (its accuracy is greater than 0 and than
  every earlier one).  What else the loop changed stays changed: the gradients and the
  buffers of the optimizer are those the last call left, and after at least one epoch the
  model is in evaluation mode.
\<close>

theorem best_weights_loaded:
  assumes "train_model fw mdl dataloaders num_epochs is_inception = Inr (mdl', hist)"
  shows "\<exists>ls. train_loop fw mdl dataloaders num_epochs is_inception = Inr ls
            \<and> hist = val_acc_history ls
            \<and> mdl' = (model ls)\<lparr>weights := best_model_wts ls,
                                  calls := calls (model ls) @ [LoadStateDict]\<rparr>
            \<and> weights mdl' = best_model_wts ls
            \<and> training mdl' = training (model ls)
            \<and> optim mdl' = optim (model ls)
            \<and> (0 < num_epochs \<longrightarrow> \<not> training mdl')
            \<and> (hist \<noteq> [] \<and> 0 < last hist \<and> (\<forall>a \<in> set (butlast hist). a < last hist)
                 \<longrightarrow> weights mdl' = weights (model ls))"
proof -
  from assms obtain ls where ls: "train_loop fw mdl dataloaders num_epochs is_inception = Inr ls"
    and m: "mdl' = (model ls)\<lparr>weights := best_model_wts ls,
                                 calls := calls (model ls) @ [LoadStateDict]\<rparr>"
    and h: "hist = val_acc_history ls"
    unfolding train_model_Inr by blast
  from ls have l: "train_loop fw mdl dataloaders (int (nat num_epochs)) is_inception = Inr ls"
    by (simp only: train_loop_nat [symmetric])
  note H = train_loop_history [OF l] and B = train_loop_best [OF l]
  have len: "length hist = nat num_epochs" using H h by simp
  have mode: "\<not> training mdl'" if "0 < num_epochs"
    using that H m by simp
  have final: "weights mdl' = weights (model ls)"
    if f: "hist \<noteq> []" "0 < last hist" "\<forall>a \<in> set (butlast hist). a < last hist"
  proof -
    from f(1,2) have "\<exists>a \<in> set (val_acc_history ls). 0 < a"
      using h last_in_set by blast
    with B obtain k lk where k: "k < nat num_epochs" "val_acc_history ls ! k = best_acc ls"
      "train_loop fw mdl dataloaders (int (Suc k)) is_inception = Inr lk"
      "best_model_wts ls = weights (model lk)"
      and top: "\<forall>a \<in> set (val_acc_history ls). a \<le> best_acc ls"
      by blast
    have "Suc k = nat num_epochs"
    proof (rule ccontr)
      assume "Suc k \<noteq> nat num_epochs"
      with k(1) len have "k < length (butlast hist)" by simp
      then have "hist ! k \<in> set (butlast hist)"
        by (metis nth_butlast nth_mem)
      with f(3) have "hist ! k < last hist" by blast
      moreover have "last hist \<le> best_acc ls" using top h f(1) last_in_set by blast
      ultimately show False using k(2) h by simp
    qed
    with k(3) l have "lk = ls" by simp
    with k(4) m show ?thesis by simp
  qed
  from ls h m mode final show ?thesis by simp
qed

text \<open>
  Two epochs with the validation accuracies 0 and 1: the last epoch is the best, and
  the returned model keeps its weights.
\<close>

theorem best_weights_loaded_witness:
  "\<exists>ls mdl'.
       train_model (example_framework False) example_model (example_loaders [2, 2]) 2 False
         = Inr (mdl', [0, 1])
     \<and> train_loop (example_framework False) example_model (example_loaders [2, 2]) 2 False = Inr ls
     \<and> weights mdl' = best_model_wts ls \<and> weights mdl' = 2
     \<and> weights (model ls) = 2
     \<and> \<not> training mdl' \<and> optim mdl' = 2"
proof -
  obtain ls where ls:
    "train_loop (example_framework False) example_model (example_loaders [2, 2]) 2 False = Inr ls"
    and h: "val_acc_history ls = [0, 1]" and w: "weights (model ls) = 2"
    and o: "optim (model ls) = 2"
    by (simp add: example_run)
  then obtain mdl' where m:
    "train_model (example_framework False) example_model (example_loaders [2, 2]) 2 False
       = Inr (mdl', [0, 1])"
    by (simp add: train_model_def)
  from best_weights_loaded [OF m] ls
  have "weights mdl' = best_model_wts ls \<and> optim mdl' = optim (model ls) \<and> \<not> training mdl'
      \<and> weights mdl' = weights (model ls)"
    by auto
  with ls m w o show ?thesis by auto
qed

text \<open>
  As the claim C10 is written, nothing but the returned model and history is modified.
  In this run of one epoch the optimizer has made one step: its state is 1 after the
  call and was 0 before it, and the model that was in training mode is in evaluation
  mode.
\<close>

theorem only_outputs_counterexample:
  "train_model (example_framework False) example_model (example_loaders [0, 0]) 1 False
     = Inr (\<lparr>weights = 0, training = False, optim = 1,
             calls = [ModelTrain, ZeroGrad, Forward, Criterion Primary, TorchMax,
                      Backward 2, OptimizerStep,
                      ModelEval, ZeroGrad, Forward, Criterion Primary, TorchMax,
                      ZeroGrad, Forward, Criterion Primary, TorchMax, LoadStateDict]\<rparr>, [0])
   \<and> example_model = \<lparr>weights = 0, training = True, optim = 0, calls = []\<rparr>"
  by (simp add: example_run)

end
